theory Spec2Isabelle
  imports Main
begin

section \<open>Platform types\<close>

text \<open>
  The status codes the library returns.  \<open>EFI_ERROR\<close> is true of every code but
  \<open>EFI_SUCCESS\<close>.
\<close>

datatype EFI_STATUS =
    EFI_SUCCESS
  | EFI_INVALID_PARAMETER
  | EFI_UNSUPPORTED
  | EFI_NOT_FOUND
  | EFI_DEVICE_ERROR
  | EFI_OUT_OF_RESOURCES
  | EFI_ABORTED
  | EFI_END_OF_FILE

definition EFI_ERROR :: "EFI_STATUS \<Rightarrow> bool" where
  "EFI_ERROR Status = (Status \<noteq> EFI_SUCCESS)"

text \<open>
  \<open>XML_DATA_TYPE\<close> of DriverXmlLib.h, in the order of the enumeration.
\<close>

datatype XML_DATA_TYPE =
    XmlNothing
  | XmlEmptyTag
  | XmlTag
  | XmlCloseTag
  | XmlAttribute
  | XmlChar
  | XmlPi
  | XmlDecl
  | XmlComment

text \<open>
  Memory is flat: an address is a natural number and \<open>mem a\<close> is the byte stored
  there.  A \<open>CHAR8*\<close> that points into a document buffer is an address; the bytes
  that follow a buffer in memory are whatever \<open>mem\<close> holds there, so a read past the
  end of a buffer is a read of \<open>mem\<close> like any other.

  A \<open>CHAR8*\<close> handed to a predicate is the function \<open>\<lambda>i. p[i]\<close>.  Pool strings
  (the chunks the extractor copies out, names, attribute values) are byte lists; the
  pool block is one byte longer than the list and that byte is NUL
  (\<open>AllocateZeroPool (Length + 1)\<close>), which \<open>heap_string\<close> reads at any index past
  the list.
\<close>

type_synonym memory = "nat \<Rightarrow> char"

definition NUL :: char where
  "NUL = CHR 0x00"

definition at_address :: "memory \<Rightarrow> nat \<Rightarrow> nat \<Rightarrow> char" where
  "at_address mem p i = mem (p + i)"

definition heap_string :: "string \<Rightarrow> nat \<Rightarrow> char" where
  "heap_string s i = (if i < length s then s ! i else NUL)"

text \<open>\<open>gBS->CopyMem (Destination, Source, Length)\<close> out of memory into a fresh pool block.\<close>

definition read_bytes :: "memory \<Rightarrow> nat \<Rightarrow> nat \<Rightarrow> string" where
  "read_bytes mem p n = map mem [p ..< p + n]"

text \<open>\<open>AsciiStrLen\<close>: the number of bytes before the first NUL.\<close>

definition AsciiStrLen :: "string \<Rightarrow> nat" where
  "AsciiStrLen s = length (takeWhile (\<lambda>c. c \<noteq> NUL) s)"

text \<open>
  \<open>AsciiStrCmp\<close> is only ever tested against zero: the two strings are equal up to
  their first NUL.
\<close>

definition AsciiStrCmp_eq :: "string \<Rightarrow> string \<Rightarrow> bool" where
  "AsciiStrCmp_eq a b = (takeWhile (\<lambda>c. c \<noteq> NUL) a = takeWhile (\<lambda>c. c \<noteq> NUL) b)"

record XML_DOCUMENT =
  XmlDocument :: nat
  DocumentSize :: nat
  OperationPtr :: nat

section \<open>String handlers\<close>

text \<open>
  \<open>IsStrLenAtLeast\<close>: the loop runs \<open>i = 0 .. MinLen\<close> inclusive and answers FALSE at
  the first NUL.
\<close>

primrec IsStrLenAtLeast :: "(nat \<Rightarrow> char) \<Rightarrow> nat \<Rightarrow> bool" where
  "IsStrLenAtLeast Str 0 = (Str 0 \<noteq> NUL)"
| "IsStrLenAtLeast Str (Suc MinLen) = (IsStrLenAtLeast Str MinLen \<and> Str (Suc MinLen) \<noteq> NUL)"

definition IsAsciiWhitespace :: "char \<Rightarrow> bool" where
  "IsAsciiWhitespace Character =
     (Character = CHR '' '' \<or> Character = CHR 0x09 \<or> Character = CHR 0x0D \<or> Character = CHR 0x0A)"

text \<open>
  Character ranges compare byte values.  \<open>CHAR8\<close> may be signed; a byte above 0x7F is
  outside every range tested here under either reading.
\<close>

definition in_range :: "char \<Rightarrow> char \<Rightarrow> char \<Rightarrow> bool" where
  "in_range lo hi c = ((of_char lo :: nat) \<le> of_char c \<and> (of_char c :: nat) \<le> of_char hi)"

definition IsAsciiNameStartChar :: "char \<Rightarrow> bool" where
  "IsAsciiNameStartChar AsciiChar =
     (if in_range (CHR ''A'') (CHR ''Z'') AsciiChar then True
      else if in_range (CHR ''a'') (CHR ''z'') AsciiChar then True
      else if AsciiChar = CHR ''_'' \<or> AsciiChar = CHR '':'' then True
      else False)"

definition IsAsciiNameChar :: "char \<Rightarrow> bool" where
  "IsAsciiNameChar Character =
     (if IsAsciiNameStartChar Character then True
      else if in_range (CHR ''0'') (CHR ''9'') Character then True
      else if Character = CHR ''-'' \<or> Character = CHR ''.'' then True
      else False)"

definition IsAsciiXmlChar :: "char \<Rightarrow> bool" where
  "IsAsciiXmlChar Character =
     (if Character = CHR 0x09 \<or> Character = CHR 0x0A \<or> Character = CHR 0x0D then True
      else if in_range (CHR '' '') (CHR ''~'') Character then True
      else False)"

definition IsAsciiXmlTag :: "(nat \<Rightarrow> char) \<Rightarrow> bool" where
  "IsAsciiXmlTag XmlString =
     (if \<not> IsStrLenAtLeast XmlString 3 then False
      else if XmlString 0 \<noteq> CHR ''<'' then False
      else if XmlString 1 = CHR ''/'' then IsAsciiNameStartChar (XmlString 2)
      else if \<not> IsAsciiNameStartChar (XmlString 1) then False
      else True)"

definition IsAsciiEmptyElementXmlTag :: "string \<Rightarrow> bool" where
  "IsAsciiEmptyElementXmlTag XmlString =
     (let XmlStrLen = AsciiStrLen XmlString in
      if XmlStrLen < 4 then False
      else if heap_string XmlString (XmlStrLen - 1) \<noteq> CHR ''>'' then False
      else if heap_string XmlString (XmlStrLen - 2) \<noteq> CHR ''/'' then False
      else True)"

definition IsAsciiXmlCloseTag :: "(nat \<Rightarrow> char) \<Rightarrow> bool" where
  "IsAsciiXmlCloseTag XmlString =
     (if \<not> IsStrLenAtLeast XmlString 3 then False
      else if XmlString 0 \<noteq> CHR ''<'' then False
      else if XmlString 1 = CHR ''/'' then IsAsciiNameStartChar (XmlString 2)
      else False)"

definition IsAsciiXmlTagEndStr :: "(nat \<Rightarrow> char) \<Rightarrow> bool" where
  "IsAsciiXmlTagEndStr XmlString =
     (if XmlString 0 = CHR ''>'' then True
      else if XmlString 0 = CHR ''/'' \<and> XmlString 1 = CHR ''>'' then True
      else False)"

definition IsAsciiPI :: "(nat \<Rightarrow> char) \<Rightarrow> bool" where
  "IsAsciiPI XmlString =
     (if \<not> IsStrLenAtLeast XmlString 2 then False
      else if XmlString 0 \<noteq> CHR ''<'' then False
      else if XmlString 1 \<noteq> CHR ''?'' then False
      else True)"

definition IsAsciiDeclaration :: "(nat \<Rightarrow> char) \<Rightarrow> bool" where
  "IsAsciiDeclaration XmlString =
     (if \<not> IsStrLenAtLeast XmlString 2 then False
      else if XmlString 0 \<noteq> CHR ''<'' then False
      else if XmlString 1 \<noteq> CHR ''!'' then False
      else if XmlString 2 = CHR ''-'' then False
      else True)"

definition IsAsciiComment :: "(nat \<Rightarrow> char) \<Rightarrow> bool" where
  "IsAsciiComment XmlString =
     (if \<not> IsStrLenAtLeast XmlString 4 then False
      else if XmlString 0 \<noteq> CHR ''<'' then False
      else if XmlString 1 \<noteq> CHR ''!'' then False
      else if XmlString 2 \<noteq> CHR ''-'' then False
      else if XmlString 3 \<noteq> CHR ''-'' then False
      else True)"

section \<open>Chunk extraction\<close>

text \<open>
  Every extractor walks \<open>LocalPtr\<close> from \<open>XmlDoc->OperationPtr\<close> and counts
  \<open>Length\<close>.  The scan functions are the \<open>while\<close> loops; they return the two
  variables as the loop leaves them.  Pointer comparisons against \<open>EndOfData - 3\<close>
  are made on integers, so that nothing is cut off at zero.

  An extractor returns its status, the document (with \<open>OperationPtr\<close> moved on
  success) and \<open>*XmlString\<close>; \<open>None\<close> says that \<open>*XmlString\<close> was not assigned.
\<close>

function AsciiExtractPI_scan :: "memory \<Rightarrow> nat \<Rightarrow> nat \<Rightarrow> nat \<Rightarrow> nat \<times> nat" where
  "AsciiExtractPI_scan mem EndOfData LocalPtr Length =
     (if int LocalPtr < int EndOfData - 3 then
        (if mem (LocalPtr + 1) = CHR ''?'' \<and> mem (LocalPtr + 1 + 1) = CHR ''>''
         then (LocalPtr + 1 + 2, Length + 1 + 2)
         else AsciiExtractPI_scan mem EndOfData (LocalPtr + 1) (Length + 1))
      else (LocalPtr, Length))"
  by pat_completeness auto
termination
  by (relation "measure (\<lambda>(mem, EndOfData, LocalPtr, Length). EndOfData - LocalPtr)") auto

definition AsciiExtractPI :: "memory \<Rightarrow> XML_DOCUMENT \<Rightarrow> EFI_STATUS \<times> XML_DOCUMENT \<times> string option" where
  "AsciiExtractPI mem XmlDoc =
     (let EndOfData = XmlDocument XmlDoc + DocumentSize XmlDoc;
          (LocalPtr, Length) = AsciiExtractPI_scan mem EndOfData (OperationPtr XmlDoc) 0
      in if LocalPtr > EndOfData then (EFI_END_OF_FILE, XmlDoc, None)
         else (EFI_SUCCESS, XmlDoc\<lparr>OperationPtr := LocalPtr\<rparr>,
               Some (read_bytes mem (OperationPtr XmlDoc) Length)))"

function AsciiExtractComment_scan :: "memory \<Rightarrow> nat \<Rightarrow> nat \<Rightarrow> nat \<Rightarrow> nat \<times> nat" where
  "AsciiExtractComment_scan mem EndOfData LocalPtr Length =
     (if int LocalPtr < int EndOfData - 3 then
        (if mem (LocalPtr + 1) = CHR ''-'' \<and> mem (LocalPtr + 1 + 1) = CHR ''-''
            \<and> mem (LocalPtr + 1 + 2) = CHR ''>''
         then (LocalPtr + 1 + 3, Length + 1 + 3)
         else AsciiExtractComment_scan mem EndOfData (LocalPtr + 1) (Length + 1))
      else (LocalPtr, Length))"
  by pat_completeness auto
termination
  by (relation "measure (\<lambda>(mem, EndOfData, LocalPtr, Length). EndOfData - LocalPtr)") auto

definition AsciiExtractComment :: "memory \<Rightarrow> XML_DOCUMENT \<Rightarrow> EFI_STATUS \<times> XML_DOCUMENT \<times> string option" where
  "AsciiExtractComment mem XmlDoc =
     (let EndOfData = XmlDocument XmlDoc + DocumentSize XmlDoc;
          (LocalPtr, Length) = AsciiExtractComment_scan mem EndOfData (OperationPtr XmlDoc) 0
      in if LocalPtr > EndOfData then (EFI_END_OF_FILE, XmlDoc, None)
         else (EFI_SUCCESS, XmlDoc\<lparr>OperationPtr := LocalPtr\<rparr>,
               Some (read_bytes mem (OperationPtr XmlDoc) Length)))"

function AsciiExtractBoxedData_scan :: "memory \<Rightarrow> nat \<Rightarrow> nat \<Rightarrow> nat \<Rightarrow> nat \<times> nat" where
  "AsciiExtractBoxedData_scan mem EndOfData LocalPtr Length =
     (if int LocalPtr < int EndOfData - 3 then
        (if mem (LocalPtr + 1) = CHR '']'' \<and> mem (LocalPtr + 1 + 1) = CHR '']''
            \<and> mem (LocalPtr + 1 + 2) = CHR ''>''
         then (LocalPtr + 1 + 3, Length + 1 + 3)
         else AsciiExtractBoxedData_scan mem EndOfData (LocalPtr + 1) (Length + 1))
      else (LocalPtr, Length))"
  by pat_completeness auto
termination
  by (relation "measure (\<lambda>(mem, EndOfData, LocalPtr, Length). EndOfData - LocalPtr)") auto

definition AsciiExtractBoxedData :: "memory \<Rightarrow> XML_DOCUMENT \<Rightarrow> EFI_STATUS \<times> XML_DOCUMENT \<times> string option" where
  "AsciiExtractBoxedData mem XmlDoc =
     (let EndOfData = XmlDocument XmlDoc + DocumentSize XmlDoc;
          (LocalPtr, Length) = AsciiExtractBoxedData_scan mem EndOfData (OperationPtr XmlDoc) 0
      in if LocalPtr > EndOfData then (EFI_END_OF_FILE, XmlDoc, None)
         else (EFI_SUCCESS, XmlDoc\<lparr>OperationPtr := LocalPtr\<rparr>,
               Some (read_bytes mem (OperationPtr XmlDoc) Length)))"

text \<open>
  The declaration scan stops on the closing bracket itself: the chunk leaves it out and
  \<open>OperationPtr\<close> is set one past it.
\<close>

function AsciiExtractDeclaration_scan :: "memory \<Rightarrow> nat \<Rightarrow> nat \<Rightarrow> nat \<Rightarrow> nat \<times> nat" where
  "AsciiExtractDeclaration_scan mem EndOfData LocalPtr Length =
     (if int LocalPtr < int EndOfData - 3 then
        (if mem (LocalPtr + 1) = CHR ''>''
         then (LocalPtr + 1, Length + 1)
         else AsciiExtractDeclaration_scan mem EndOfData (LocalPtr + 1) (Length + 1))
      else (LocalPtr, Length))"
  by pat_completeness auto
termination
  by (relation "measure (\<lambda>(mem, EndOfData, LocalPtr, Length). EndOfData - LocalPtr)") auto

definition AsciiExtractDeclaration :: "memory \<Rightarrow> XML_DOCUMENT \<Rightarrow> EFI_STATUS \<times> XML_DOCUMENT \<times> string option" where
  "AsciiExtractDeclaration mem XmlDoc =
     (let EndOfData = XmlDocument XmlDoc + DocumentSize XmlDoc;
          StrStart = OperationPtr XmlDoc
      in if mem (StrStart + 2) = CHR ''['' then AsciiExtractBoxedData mem XmlDoc
         else if mem (StrStart + 2) = CHR ''-'' then AsciiExtractComment mem XmlDoc
         else
           (let (LocalPtr, Length) = AsciiExtractDeclaration_scan mem EndOfData StrStart 0
            in if LocalPtr > EndOfData then (EFI_END_OF_FILE, XmlDoc, None)
               else (EFI_SUCCESS, XmlDoc\<lparr>OperationPtr := LocalPtr + 1\<rparr>,
                     Some (read_bytes mem (OperationPtr XmlDoc) Length))))"

function AsciiExtractXmlTag_scan :: "memory \<Rightarrow> nat \<Rightarrow> nat \<Rightarrow> nat \<Rightarrow> nat \<times> nat" where
  "AsciiExtractXmlTag_scan mem EndOfData LocalPtr Length =
     (if LocalPtr < EndOfData then
        (if mem (LocalPtr + 1) = CHR ''>''
         then (LocalPtr + 1 + 1, Length + 1 + 1)
         else AsciiExtractXmlTag_scan mem EndOfData (LocalPtr + 1) (Length + 1))
      else (LocalPtr, Length))"
  by pat_completeness auto
termination
  by (relation "measure (\<lambda>(mem, EndOfData, LocalPtr, Length). EndOfData - LocalPtr)") auto

definition AsciiExtractXmlTag :: "memory \<Rightarrow> XML_DOCUMENT \<Rightarrow> EFI_STATUS \<times> XML_DOCUMENT \<times> string option" where
  "AsciiExtractXmlTag mem XmlDoc =
     (let EndOfData = XmlDocument XmlDoc + DocumentSize XmlDoc;
          (LocalPtr, Length) = AsciiExtractXmlTag_scan mem EndOfData (OperationPtr XmlDoc) 0
      in if LocalPtr > EndOfData then (EFI_END_OF_FILE, XmlDoc, None)
         else (EFI_SUCCESS, XmlDoc\<lparr>OperationPtr := LocalPtr\<rparr>,
               Some (read_bytes mem (OperationPtr XmlDoc) Length)))"

function AsciiExtractCharData_scan :: "memory \<Rightarrow> nat \<Rightarrow> nat \<Rightarrow> nat \<Rightarrow> nat \<times> nat" where
  "AsciiExtractCharData_scan mem EndOfData LocalPtr Length =
     (if LocalPtr < EndOfData then
        (if mem (LocalPtr + 1) = CHR ''<''
         then (LocalPtr + 1, Length + 1)
         else AsciiExtractCharData_scan mem EndOfData (LocalPtr + 1) (Length + 1))
      else (LocalPtr, Length))"
  by pat_completeness auto
termination
  by (relation "measure (\<lambda>(mem, EndOfData, LocalPtr, Length). EndOfData - LocalPtr)") auto

definition AsciiExtractCharData :: "memory \<Rightarrow> XML_DOCUMENT \<Rightarrow> EFI_STATUS \<times> XML_DOCUMENT \<times> string option" where
  "AsciiExtractCharData mem XmlDoc =
     (let EndOfData = XmlDocument XmlDoc + DocumentSize XmlDoc;
          (LocalPtr, Length) = AsciiExtractCharData_scan mem EndOfData (OperationPtr XmlDoc) 0
      in (EFI_SUCCESS,
          XmlDoc\<lparr>OperationPtr := (if LocalPtr > EndOfData then EndOfData else LocalPtr)\<rparr>,
          Some (read_bytes mem (OperationPtr XmlDoc) Length)))"

section \<open>Scanning pool strings\<close>

text \<open>
  A pointer into a pool string is a position in the byte list; \<open>&StrPtr[i] < InputEnd\<close>
  compares positions.  \<open>scan_while continue limit p\<close> is the loop
  \<open>while (p < limit) { if (!continue (p)) break; p++; }\<close>, which is also
  \<open>while (continue (p) && p < limit) p++\<close>: it returns the position the loop stops at.
\<close>

function scan_while :: "(nat \<Rightarrow> bool) \<Rightarrow> nat \<Rightarrow> nat \<Rightarrow> nat" where
  "scan_while continue limit p =
     (if p < limit \<and> continue p then scan_while continue limit (p + 1) else p)"
  by pat_completeness auto
termination
  by (relation "measure (\<lambda>(continue, limit, p). limit - p)") auto

text \<open>\<open>CopyMem\<close> of \<open>n\<close> bytes from position \<open>p\<close> of a pool string into a fresh block.\<close>

definition heap_bytes :: "string \<Rightarrow> nat \<Rightarrow> nat \<Rightarrow> string" where
  "heap_bytes s p n = map (heap_string s) [p ..< p + n]"

text \<open>
  \<open>IsAsciiXmlTagWithAttributes\<close> returns \<open>None\<close> for FALSE and
  \<open>Some FirstAttribute\<close> for TRUE, \<open>FirstAttribute\<close> being the rest of the string
  from position \<open>i\<close> on (the one caller passes a place for it).
\<close>

definition IsAsciiXmlTagWithAttributes :: "string \<Rightarrow> string option" where
  "IsAsciiXmlTagWithAttributes XmlString =
     (let XmlStrLen = AsciiStrLen XmlString;
          s = heap_string XmlString
      in if \<not> IsAsciiXmlTag s then None
         else
           (let i = scan_while (\<lambda>p. \<not> IsAsciiWhitespace (s p)) XmlStrLen 0
            in if i \<ge> XmlStrLen then None
               else
                 (let i = scan_while (\<lambda>p. IsAsciiWhitespace (s p)) XmlStrLen i
                  in if IsAsciiXmlTagEndStr (\<lambda>k. s (i + k)) then None
                     else Some (drop i XmlString))))"

text \<open>
  \<open>AsciiExtractAttribute\<close> returns its status, \<open>*InOutStr\<close>, \<open>*Attribute\<close> and
  \<open>*AttribData\<close>.  The two outputs are set to NULL on entry; \<open>*InOutStr\<close> is
  written on \<open>EFI_NOT_FOUND\<close> and on \<open>EFI_SUCCESS\<close> only.  \<open>StrPtr\<close>,
  \<open>NameEnd\<close>, \<open>StrPtr2\<close> and \<open>ValueEnd\<close> are positions in the string that
  \<open>*InOutStr\<close> points at on entry.  Before the \<open>=\<close> one whitespace byte is
  stepped over by an \<open>if\<close>; after it a loop steps over all of them.
\<close>

definition AsciiExtractAttribute :: "string \<Rightarrow> EFI_STATUS \<times> string \<times> string option \<times> string option" where
  "AsciiExtractAttribute InOutStr =
     (let StrLength = AsciiStrLen InOutStr;
          InputEnd = StrLength;
          s = heap_string InOutStr;
          StrPtr = scan_while (\<lambda>p. IsAsciiWhitespace (s p)) InputEnd 0
      in if IsAsciiXmlTagEndStr (\<lambda>k. s (StrPtr + k)) then (EFI_NOT_FOUND, drop StrPtr InOutStr, None, None)
         else
           (let NameEnd = scan_while (\<lambda>p. s p \<noteq> CHR ''='' \<and> \<not> IsAsciiWhitespace (s p)) InputEnd StrPtr;
                LocalAttrib = heap_bytes InOutStr StrPtr (NameEnd - StrPtr);
                StrPtr2 = (if IsAsciiWhitespace (s NameEnd) then NameEnd + 1 else NameEnd)
            in if s StrPtr2 \<noteq> CHR ''='' then (EFI_INVALID_PARAMETER, InOutStr, None, None)
               else
                 (let StrPtr2 = scan_while (\<lambda>p. IsAsciiWhitespace (s p)) InputEnd (StrPtr2 + 1)
                  in if s StrPtr2 \<noteq> CHR 0x22 \<and> s StrPtr2 \<noteq> CHR 0x27
                     then (EFI_INVALID_PARAMETER, InOutStr, None, None)
                     else
                       (let QuoteTypeChar = s StrPtr2;
                            StrPtr2 = StrPtr2 + 1;
                            ValueEnd = scan_while (\<lambda>p. s p \<noteq> QuoteTypeChar) InputEnd StrPtr2;
                            j = ValueEnd - StrPtr2
                        in if s ValueEnd \<noteq> QuoteTypeChar then (EFI_INVALID_PARAMETER, InOutStr, None, None)
                           else (EFI_SUCCESS, drop (ValueEnd + 1) InOutStr, Some LocalAttrib,
                                 (if j > 0 then Some (heap_bytes InOutStr StrPtr2 j) else None))))))"

text \<open>
  \<open>AsciiGetTagNameFromElement\<close> returns its status and \<open>*ElementName\<close>; on every
  failure \<open>*ElementName\<close> is left as the caller had it (\<open>None\<close>).
\<close>

definition AsciiGetTagNameFromElement :: "string \<Rightarrow> EFI_STATUS \<times> string option" where
  "AsciiGetTagNameFromElement TagData =
     (let s = heap_string TagData
      in if s 0 \<noteq> CHR ''<'' then (EFI_INVALID_PARAMETER, None)
         else
           (let TagLen = AsciiStrLen TagData;
                StrPtr = 1;
                StrPtr = (if s StrPtr = CHR ''/'' then StrPtr + 1 else StrPtr)
            in if IsAsciiNameStartChar (s StrPtr) then
                 (let NameEnd = scan_while (\<lambda>p. \<not> IsAsciiWhitespace (s p) \<and> IsAsciiNameChar (s p)) TagLen (StrPtr + 1);
                      ElementLength = NameEnd - StrPtr
                  in if \<not> IsAsciiWhitespace (s NameEnd) \<and> \<not> IsAsciiXmlTagEndStr (\<lambda>k. s (NameEnd + k))
                     then (EFI_INVALID_PARAMETER, None)
                     else (EFI_SUCCESS, Some (heap_bytes TagData StrPtr ElementLength)))
               else (EFI_INVALID_PARAMETER, None)))"

text \<open>
  The data loop of \<open>AsciiGetPIData\<close> has no bound of its own; it stops at the first
  byte that is not an XML character, at the latest the NUL that ends the pool string.
\<close>

function AsciiGetPIData_scan :: "string \<Rightarrow> nat \<Rightarrow> nat" where
  "AsciiGetPIData_scan PiData p =
     (if IsAsciiXmlChar (heap_string PiData p) then
        (if heap_string PiData p = CHR ''?'' \<and> heap_string PiData (p + 1) = CHR ''>'' then p
         else AsciiGetPIData_scan PiData (p + 1))
      else p)"
  by pat_completeness auto
termination
  by (relation "measure (\<lambda>(PiData, p). length PiData - p)")
     (auto simp: heap_string_def IsAsciiXmlChar_def in_range_def NUL_def split: if_splits)

text \<open>
  \<open>AsciiGetPIData\<close> returns its status, \<open>*PiTargetName\<close> and \<open>*PiTargetData\<close>.  The
  caller presets both to NULL; the data pointer is written (to NULL) once the name has
  been read.
\<close>

definition AsciiGetPIData :: "string \<Rightarrow> EFI_STATUS \<times> string option \<times> string option" where
  "AsciiGetPIData PiData =
     (let PiLen = AsciiStrLen PiData;
          s = heap_string PiData
      in if \<not> (s 0 = CHR ''<'' \<and> s 1 = CHR ''?'') then (EFI_INVALID_PARAMETER, None, None)
         else
           (let InputEnd = PiLen;
                StrPtr = 2
            in if IsAsciiNameStartChar (s StrPtr) then
                 (let NameEnd = scan_while (\<lambda>p. \<not> IsAsciiWhitespace (s p) \<and> IsAsciiNameChar (s p)) PiLen (StrPtr + 1);
                      PiTargetLength = NameEnd - StrPtr
                  in if \<not> IsAsciiWhitespace (s NameEnd) \<and> \<not> IsAsciiXmlTagEndStr (\<lambda>k. s (NameEnd + k))
                     then (EFI_INVALID_PARAMETER, None, None)
                     else
                       (let PiTargetName = Some (heap_bytes PiData StrPtr PiTargetLength);
                            StrPtr = scan_while (\<lambda>p. IsAsciiWhitespace (s p)) InputEnd NameEnd
                        in if s StrPtr = CHR ''?'' \<and> s (StrPtr + 1) = CHR ''>''
                           then (EFI_SUCCESS, PiTargetName, None)
                           else
                             (let PiDataLength = AsciiGetPIData_scan PiData StrPtr - StrPtr
                              in (EFI_SUCCESS, PiTargetName,
                                  (if PiDataLength \<ge> 1 then Some (heap_bytes PiData StrPtr PiDataLength)
                                   else None)))))
               else (EFI_INVALID_PARAMETER, None, None)))"

section \<open>Node store\<close>

text \<open>
  A \<open>LIST_ANCHOR\<close> is the list head together with \<open>ItemCount\<close>.  The linked list is
  the sequence of its entries; the count is a field of its own, kept by the code beside
  the list, and a \<open>UINTN\<close>: it wraps.

  Every node starts with \<open>DataLink\<close> and \<open>XmlDataType\<close> and the code casts between the
  structures on that header, so the four structures are the constructors of one type.
  A \<open>CHAR8*\<close> field is \<open>None\<close> when it is NULL.
\<close>

datatype 'a LIST_ANCHOR = LIST_ANCHOR (ListStart: "'a list") (ItemCount: nat)

datatype DRIVER_XML_DATA =
    DRIVER_XML_TAG XML_DATA_TYPE "string option" "DRIVER_XML_DATA LIST_ANCHOR" "DRIVER_XML_DATA LIST_ANCHOR"
  | DRIVER_XML_ATTRIBUTE "string option" "string option"
  | DRIVER_XML_CHAR_DATA nat string
  | DRIVER_XML_PROCESSING_INSTRUCTION "string option" "string option"

fun XmlDataType :: "DRIVER_XML_DATA \<Rightarrow> XML_DATA_TYPE" where
  "XmlDataType (DRIVER_XML_TAG DataType TagName TagAttributes TagChildren) = DataType"
| "XmlDataType (DRIVER_XML_ATTRIBUTE AttributeName AttributeData) = XmlAttribute"
| "XmlDataType (DRIVER_XML_CHAR_DATA DataSize CharData) = XmlChar"
| "XmlDataType (DRIVER_XML_PROCESSING_INSTRUCTION PiTargetName PiTargetData) = XmlPi"

definition UINTN_MAX :: nat where
  "UINTN_MAX = 2 ^ 64"

definition UINTN_inc :: "nat \<Rightarrow> nat" where
  "UINTN_inc n = (n + 1) mod UINTN_MAX"

definition UINTN_dec :: "nat \<Rightarrow> nat" where
  "UINTN_dec n = (n + UINTN_MAX - 1) mod UINTN_MAX"

definition UINTN_sub :: "nat \<Rightarrow> nat \<Rightarrow> nat" where
  "UINTN_sub a b = nat ((int a - int b) mod int UINTN_MAX)"

definition UINTN_add :: "nat \<Rightarrow> nat \<Rightarrow> nat" where
  "UINTN_add a b = (a + b) mod UINTN_MAX"

text \<open>\<open>InsertTailList\<close> followed by \<open>ItemCount++\<close>.\<close>

definition InsertTail :: "'a LIST_ANCHOR \<Rightarrow> 'a \<Rightarrow> 'a LIST_ANCHOR" where
  "InsertTail List Entry = LIST_ANCHOR (ListStart List @ [Entry]) (UINTN_inc (ItemCount List))"

text \<open>
  What the model cannot give a value to: a pointer variable read before anything was
  assigned to it, a node read after \<open>FreePool\<close>, a NULL pointer followed, a pointer
  that is not an entry of the list it is said to be in.
\<close>

datatype fault = UninitializedRead | UseAfterFree | NullDereference | WildPointer

text \<open>
  The value of a node pointer that walks a list: NULL, the list head (cast to a node, as
  the loops do to start), the entry at a position, a variable nothing was assigned to,
  or an entry that has been freed.
\<close>

datatype node_ptr = NullPtr | ListHead | Entry nat | Uninitialized | Freed

text \<open>
  \<open>GetNextXmlElement\<close> returns its status and \<open>*NextItem\<close> (\<open>ThisItem\<close> itself where it
  is not written: every caller passes the same variable for both).  \<open>IsNodeAtEnd\<close> is
  false of the list head, so from the head the answer is \<open>EFI_SUCCESS\<close> with the
  head's forward link: the first entry, or the head itself where the list has no entry.
\<close>

definition GetNextXmlElement :: "'a LIST_ANCHOR \<Rightarrow> node_ptr \<Rightarrow> fault + (EFI_STATUS \<times> node_ptr)" where
  "GetNextXmlElement XmlDataList ThisItem =
     (case ThisItem of
        NullPtr \<Rightarrow> Inr (EFI_INVALID_PARAMETER, ThisItem)
      | Uninitialized \<Rightarrow> Inl UninitializedRead
      | Freed \<Rightarrow> Inl UseAfterFree
      | ListHead \<Rightarrow>
          (if ListStart XmlDataList = [] then Inr (EFI_SUCCESS, ListHead)
           else Inr (EFI_SUCCESS, Entry 0))
      | Entry i \<Rightarrow>
          (if i + 1 < length (ListStart XmlDataList) then Inr (EFI_SUCCESS, Entry (i + 1))
           else Inr (EFI_NOT_FOUND, NullPtr)))"

definition DriverXmlAddAttribute :: "DRIVER_XML_DATA \<Rightarrow> string option \<Rightarrow> string option \<Rightarrow> DRIVER_XML_DATA" where
  "DriverXmlAddAttribute ParentElement AtrributeName AttributeData =
     (case ParentElement of
        DRIVER_XML_TAG DataType TagName TagAttributes TagChildren \<Rightarrow>
          DRIVER_XML_TAG DataType TagName
            (InsertTail TagAttributes (DRIVER_XML_ATTRIBUTE AtrributeName AttributeData)) TagChildren
      | _ \<Rightarrow> ParentElement)"

text \<open>
  \<open>DeleteAttributeList\<close> declares \<open>ChildData\<close> and hands it to \<open>GetNextXmlElement\<close>
  in the loop condition without assigning it first.  It returns its status and the list.
\<close>

function DeleteAttributeList_loop :: "DRIVER_XML_DATA LIST_ANCHOR \<Rightarrow> node_ptr \<Rightarrow> fault + (EFI_STATUS \<times> DRIVER_XML_DATA LIST_ANCHOR)" where
  "DeleteAttributeList_loop AttributeList ChildData =
     (case GetNextXmlElement AttributeList ChildData of
        Inl f \<Rightarrow> Inl f
      | Inr (Status, ChildData) \<Rightarrow>
          (if Status = EFI_SUCCESS then
             (case ChildData of
                Entry i \<Rightarrow>
                  (if XmlDataType (ListStart AttributeList ! i) \<noteq> XmlAttribute
                   then DeleteAttributeList_loop AttributeList ChildData
                   else DeleteAttributeList_loop
                          (LIST_ANCHOR (take i (ListStart AttributeList) @ drop (i + 1) (ListStart AttributeList))
                             (UINTN_dec (ItemCount AttributeList)))
                          Freed)
              | ListHead \<Rightarrow> Inl WildPointer
              | _ \<Rightarrow> Inr (EFI_NOT_FOUND, AttributeList))
           else if ItemCount AttributeList \<noteq> 0 then Inr (EFI_ABORTED, AttributeList)
           else Inr (EFI_SUCCESS, AttributeList)))"
  by pat_completeness auto
termination
  by (relation "measure (\<lambda>(AttributeList, ChildData).
        (case ChildData of Entry i \<Rightarrow> length (ListStart AttributeList) - i
         | ListHead \<Rightarrow> length (ListStart AttributeList) + 1 | _ \<Rightarrow> 0))")
     (auto simp: GetNextXmlElement_def split: node_ptr.splits if_splits)

definition DeleteAttributeList :: "DRIVER_XML_DATA LIST_ANCHOR \<Rightarrow> fault + (EFI_STATUS \<times> DRIVER_XML_DATA LIST_ANCHOR)" where
  "DeleteAttributeList AttributeList = DeleteAttributeList_loop AttributeList Uninitialized"

text \<open>
  \<open>DriverXmlDeleteEmptyTag\<close> and \<open>DriverXmlDeleteTagAndChildren\<close> return their status
  and the element as they leave it; the element pointer of \<open>DriverXmlDeleteElement\<close> is
  the position \<open>i\<close> of the element in \<open>ElementList\<close>.  The loop of
  \<open>DeleteElementList\<close> returns \<open>Some Status\<close> where the function returns from
  inside the loop; after \<open>DriverXmlDeleteElement\<close> has freed \<open>ChildData\<close> the loop
  condition is evaluated on that pointer.  A loop that is given the list head as an entry
  (the list has no entry) follows a pointer that is no entry.
\<close>

definition DriverXmlDeleteEmptyTag :: "DRIVER_XML_DATA \<Rightarrow> fault + (EFI_STATUS \<times> DRIVER_XML_DATA)" where
  "DriverXmlDeleteEmptyTag Element =
     (if XmlDataType Element \<noteq> XmlEmptyTag then Inr (EFI_INVALID_PARAMETER, Element)
      else
        (case Element of
           DRIVER_XML_TAG DataType TagName TagAttributes TagChildren \<Rightarrow>
             (case DeleteAttributeList TagAttributes of
                Inl f \<Rightarrow> Inl f
              | Inr (Status, AttributeList) \<Rightarrow>
                  Inr (EFI_SUCCESS, DRIVER_XML_TAG DataType TagName AttributeList TagChildren))
         | _ \<Rightarrow> Inl WildPointer))"

lemma size_nth_LIST_ANCHOR:
  "i < length (ListStart L) \<Longrightarrow> size (ListStart L ! i) < size_LIST_ANCHOR size L"
  by (cases L) (simp add: less_Suc_eq_le size_list_estimation' [OF nth_mem])

function DeleteElementList_loop :: "DRIVER_XML_DATA LIST_ANCHOR \<Rightarrow> node_ptr \<Rightarrow> fault + (EFI_STATUS option \<times> DRIVER_XML_DATA LIST_ANCHOR)"
  and DeleteElementList :: "DRIVER_XML_DATA LIST_ANCHOR \<Rightarrow> fault + (EFI_STATUS \<times> DRIVER_XML_DATA LIST_ANCHOR)"
  and DriverXmlDeleteTagAndChildren :: "DRIVER_XML_DATA \<Rightarrow> fault + (EFI_STATUS \<times> DRIVER_XML_DATA)"
  and DriverXmlDeleteElement :: "DRIVER_XML_DATA LIST_ANCHOR \<Rightarrow> nat \<Rightarrow> fault + (EFI_STATUS \<times> DRIVER_XML_DATA LIST_ANCHOR)"
where
  "DeleteElementList_loop ElementList ChildData =
     (case GetNextXmlElement ElementList ChildData of
        Inl f \<Rightarrow> Inl f
      | Inr (Status, ChildData) \<Rightarrow>
          (if Status = EFI_SUCCESS then
             (case ChildData of
                Entry i \<Rightarrow>
                  (case DriverXmlDeleteElement ElementList i of
                     Inl f \<Rightarrow> Inl f
                   | Inr (Status, ElementList) \<Rightarrow> DeleteElementList_loop ElementList Freed)
              | ListHead \<Rightarrow> Inl WildPointer
              | _ \<Rightarrow> Inr (Some EFI_NOT_FOUND, ElementList))
           else Inr (None, ElementList)))"
| "DeleteElementList ElementList =
     (case (if ItemCount ElementList > 0 then DeleteElementList_loop ElementList ListHead
            else Inr (None, ElementList)) of
        Inl f \<Rightarrow> Inl f
      | Inr (Some Status, ElementList) \<Rightarrow> Inr (Status, ElementList)
      | Inr (None, ElementList) \<Rightarrow>
          (if ItemCount ElementList \<noteq> 0 then Inr (EFI_ABORTED, ElementList)
           else Inr (EFI_SUCCESS, ElementList)))"
| "DriverXmlDeleteTagAndChildren Element =
     (if XmlDataType Element \<noteq> XmlTag then Inr (EFI_INVALID_PARAMETER, Element)
      else
        (case Element of
           DRIVER_XML_TAG DataType TagName TagAttributes TagChildren \<Rightarrow>
             (case DeleteAttributeList TagAttributes of
                Inl f \<Rightarrow> Inl f
              | Inr (Status, AttributeList) \<Rightarrow>
                  (case DeleteElementList TagChildren of
                     Inl f \<Rightarrow> Inl f
                   | Inr (Status, ChildList) \<Rightarrow>
                       Inr (EFI_SUCCESS, DRIVER_XML_TAG DataType TagName AttributeList ChildList)))
         | _ \<Rightarrow> Inl WildPointer))"
| "DriverXmlDeleteElement ElementList i =
     (if i < length (ListStart ElementList) then
        (case (if XmlDataType (ListStart ElementList ! i) = XmlEmptyTag
               then DriverXmlDeleteEmptyTag (ListStart ElementList ! i)
               else if XmlDataType (ListStart ElementList ! i) = XmlTag
               then DriverXmlDeleteTagAndChildren (ListStart ElementList ! i)
               else Inr (EFI_SUCCESS, ListStart ElementList ! i)) of
           Inl f \<Rightarrow> Inl f
         | Inr (Status, Element) \<Rightarrow>
             Inr (EFI_SUCCESS,
                  LIST_ANCHOR (take i (ListStart ElementList) @ drop (i + 1) (ListStart ElementList))
                    (UINTN_dec (ItemCount ElementList))))
      else Inl WildPointer)"
  by pat_completeness auto
termination
  by (relation "measure (\<lambda>x. case x of
          Inl (Inl (ElementList, ChildData)) \<Rightarrow>
            (case ChildData of ListHead \<Rightarrow> 4 * size_LIST_ANCHOR size ElementList + 1
             | Entry i \<Rightarrow> 4 * size_LIST_ANCHOR size ElementList + 1 | _ \<Rightarrow> 0)
        | Inl (Inr ElementList) \<Rightarrow> 4 * size_LIST_ANCHOR size ElementList + 2
        | Inr (Inl Element) \<Rightarrow> 4 * size Element - 1
        | Inr (Inr (ElementList, i)) \<Rightarrow> 4 * size_LIST_ANCHOR size ElementList)")
     (auto simp: GetNextXmlElement_def dest: size_nth_LIST_ANCHOR split: node_ptr.splits if_splits)

definition DriverXmlDeleteChildElement :: "DRIVER_XML_DATA \<Rightarrow> nat \<Rightarrow> fault + DRIVER_XML_DATA" where
  "DriverXmlDeleteChildElement ParentElement i =
     (case ParentElement of
        DRIVER_XML_TAG DataType TagName TagAttributes TagChildren \<Rightarrow>
          (case DriverXmlDeleteElement TagChildren i of
             Inl f \<Rightarrow> Inl f
           | Inr (Status, ElementList) \<Rightarrow> Inr (DRIVER_XML_TAG DataType TagName TagAttributes ElementList))
      | _ \<Rightarrow> Inl WildPointer)"

definition DriverXmlCreateTag :: "DRIVER_XML_DATA LIST_ANCHOR \<Rightarrow> string option \<Rightarrow> XML_DATA_TYPE \<Rightarrow> DRIVER_XML_DATA LIST_ANCHOR" where
  "DriverXmlCreateTag ElementList TagName DataType =
     InsertTail ElementList (DRIVER_XML_TAG DataType TagName (LIST_ANCHOR [] 0) (LIST_ANCHOR [] 0))"

definition DriverXmlCreateChildTag :: "DRIVER_XML_DATA \<Rightarrow> string option \<Rightarrow> XML_DATA_TYPE \<Rightarrow> DRIVER_XML_DATA" where
  "DriverXmlCreateChildTag ParentElement ChildTagName ChildDataType =
     (case ParentElement of
        DRIVER_XML_TAG DataType TagName TagAttributes TagChildren \<Rightarrow>
          DRIVER_XML_TAG DataType TagName TagAttributes
            (DriverXmlCreateTag TagChildren ChildTagName ChildDataType)
      | _ \<Rightarrow> ParentElement)"

text \<open>
  The children of a tag, and a write through a pointer to the child at position \<open>i\<close>.
\<close>

definition TagChildren :: "DRIVER_XML_DATA \<Rightarrow> DRIVER_XML_DATA LIST_ANCHOR" where
  "TagChildren Element =
     (case Element of
        DRIVER_XML_TAG DataType TagName Attributes Children \<Rightarrow> Children
      | _ \<Rightarrow> LIST_ANCHOR [] 0)"

definition TagAttributes :: "DRIVER_XML_DATA \<Rightarrow> DRIVER_XML_DATA LIST_ANCHOR" where
  "TagAttributes Element =
     (case Element of
        DRIVER_XML_TAG DataType TagName Attributes Children \<Rightarrow> Attributes
      | _ \<Rightarrow> LIST_ANCHOR [] 0)"

definition TagName :: "DRIVER_XML_DATA \<Rightarrow> string option" where
  "TagName Element =
     (case Element of
        DRIVER_XML_TAG DataType Name Attributes Children \<Rightarrow> Name
      | _ \<Rightarrow> None)"

definition store_child :: "DRIVER_XML_DATA \<Rightarrow> nat \<Rightarrow> DRIVER_XML_DATA \<Rightarrow> DRIVER_XML_DATA" where
  "store_child ParentElement i Child =
     (case ParentElement of
        DRIVER_XML_TAG DataType Name Attributes Children \<Rightarrow>
          DRIVER_XML_TAG DataType Name Attributes
            (LIST_ANCHOR ((ListStart Children)[i := Child]) (ItemCount Children))
      | _ \<Rightarrow> ParentElement)"

definition store_children :: "DRIVER_XML_DATA \<Rightarrow> DRIVER_XML_DATA LIST_ANCHOR \<Rightarrow> DRIVER_XML_DATA" where
  "store_children ParentElement Children =
     (case ParentElement of
        DRIVER_XML_TAG DataType Name Attributes OldChildren \<Rightarrow>
          DRIVER_XML_TAG DataType Name Attributes Children
      | _ \<Rightarrow> ParentElement)"

lemma heap_string_not_NUL: "heap_string s i \<noteq> NUL \<Longrightarrow> i < length s"
  by (simp add: heap_string_def split: if_splits)

lemma AsciiExtractAttribute_consumes:
  assumes "(EFI_SUCCESS, rest, Attribute, AttribData) = AsciiExtractAttribute InOutStr"
  shows "length rest < length InOutStr"
proof -
  define s where "s = heap_string InOutStr"
  define InputEnd where "InputEnd = AsciiStrLen InOutStr"
  define StrPtr where "StrPtr = scan_while (\<lambda>p. IsAsciiWhitespace (s p)) InputEnd 0"
  define NameEnd where
    "NameEnd = scan_while (\<lambda>p. s p \<noteq> CHR ''='' \<and> \<not> IsAsciiWhitespace (s p)) InputEnd StrPtr"
  define Eq where "Eq = (if IsAsciiWhitespace (s NameEnd) then NameEnd + 1 else NameEnd)"
  define Quote where "Quote = scan_while (\<lambda>p. IsAsciiWhitespace (s p)) InputEnd (Eq + 1)"
  define ValueEnd where "ValueEnd = scan_while (\<lambda>p. s p \<noteq> s Quote) InputEnd (Quote + 1)"
  have unfolded: "AsciiExtractAttribute InOutStr =
     (if IsAsciiXmlTagEndStr (\<lambda>k. s (StrPtr + k)) then (EFI_NOT_FOUND, drop StrPtr InOutStr, None, None)
      else if s Eq \<noteq> CHR ''='' then (EFI_INVALID_PARAMETER, InOutStr, None, None)
      else if s Quote \<noteq> CHR 0x22 \<and> s Quote \<noteq> CHR 0x27 then (EFI_INVALID_PARAMETER, InOutStr, None, None)
      else if s ValueEnd \<noteq> s Quote then (EFI_INVALID_PARAMETER, InOutStr, None, None)
      else (EFI_SUCCESS, drop (ValueEnd + 1) InOutStr,
            Some (heap_bytes InOutStr StrPtr (NameEnd - StrPtr)),
            (if ValueEnd - (Quote + 1) > 0
             then Some (heap_bytes InOutStr (Quote + 1) (ValueEnd - (Quote + 1))) else None)))"
    unfolding AsciiExtractAttribute_def Let_def s_def InputEnd_def StrPtr_def NameEnd_def Eq_def
      Quote_def ValueEnd_def
    by simp
  from assms have rest: "rest = drop (ValueEnd + 1) InOutStr"
    and quote: "s Quote = CHR 0x22 \<or> s Quote = CHR 0x27"
    and closed: "s ValueEnd = s Quote"
    unfolding unfolded by (auto split: if_splits)
  from quote closed have "s ValueEnd \<noteq> NUL"
    by (auto simp: NUL_def)
  then have "ValueEnd < length InOutStr"
    unfolding s_def by (rule heap_string_not_NUL)
  with rest show ?thesis
    by simp
qed

text \<open>
  The loop of \<open>ParseAttributes\<close>: \<open>Attribute\<close> is the pointer
  \<open>AsciiExtractAttribute\<close> moves on.
\<close>

function ParseAttributes_loop :: "DRIVER_XML_DATA \<Rightarrow> string \<Rightarrow> EFI_STATUS \<times> DRIVER_XML_DATA" where
  "ParseAttributes_loop Element Attribute =
     (case AsciiExtractAttribute Attribute of
        (Status, Next, AttributeName, AttributeData) \<Rightarrow>
          (if \<not> EFI_ERROR Status
           then ParseAttributes_loop (DriverXmlAddAttribute Element AttributeName AttributeData) Next
           else if Status \<noteq> EFI_NOT_FOUND then (EFI_INVALID_PARAMETER, Element)
           else (Status, Element)))"
  by pat_completeness auto
termination
  by (relation "measure (\<lambda>(Element, Attribute). length Attribute)")
     (auto simp: EFI_ERROR_def dest: AsciiExtractAttribute_consumes)

definition ParseAttributes :: "DRIVER_XML_DATA \<Rightarrow> string \<Rightarrow> EFI_STATUS \<times> DRIVER_XML_DATA" where
  "ParseAttributes Element Chunk =
     (case IsAsciiXmlTagWithAttributes Chunk of
        None \<Rightarrow> (EFI_SUCCESS, Element)
      | Some Attribute \<Rightarrow> ParseAttributes_loop Element Attribute)"

definition DriverXmlAddCharData :: "DRIVER_XML_DATA LIST_ANCHOR \<Rightarrow> string \<Rightarrow> nat \<Rightarrow> DRIVER_XML_DATA LIST_ANCHOR" where
  "DriverXmlAddCharData ElementList CharData CharDataLen =
     InsertTail ElementList (DRIVER_XML_CHAR_DATA CharDataLen (heap_bytes CharData 0 CharDataLen))"

text \<open>
  \<open>DriverXmlAddTag\<close> returns the parent as it leaves it and the pointer it returns: the
  new child (the entry at position \<open>i\<close> of the parent's children), NULL, or, where the
  attributes were bad and the child was deleted, the pointer to the freed child.
  \<open>TagName\<close> is a local that \<open>AsciiGetTagNameFromElement\<close> assigns only on success.
\<close>

definition DriverXmlAddTag :: "DRIVER_XML_DATA \<Rightarrow> string \<Rightarrow> XML_DATA_TYPE \<Rightarrow> fault + (DRIVER_XML_DATA \<times> node_ptr)" where
  "DriverXmlAddTag ParentElement XmlString DataType =
     (if XmlDataType ParentElement \<noteq> XmlTag \<and> XmlDataType ParentElement \<noteq> XmlEmptyTag
      then Inr (ParentElement, NullPtr)
      else
        (case AsciiGetTagNameFromElement XmlString of
           (Status, None) \<Rightarrow> Inl UninitializedRead
         | (Status, Some Name) \<Rightarrow>
             (let i = length (ListStart (TagChildren ParentElement));
                  ParentTag = DriverXmlCreateChildTag ParentElement (Some Name) DataType;
                  (Status, LocalElement) = ParseAttributes (ListStart (TagChildren ParentTag) ! i) XmlString;
                  ParentTag = store_child ParentTag i LocalElement
              in if EFI_ERROR Status \<and> Status \<noteq> EFI_NOT_FOUND then
                   (case DriverXmlDeleteChildElement ParentTag i of
                      Inl f \<Rightarrow> Inl f
                    | Inr ParentTag \<Rightarrow> Inr (ParentTag, Freed))
                 else Inr (ParentTag, Entry i))))"

definition DriverXmlAddPI :: "DRIVER_XML_DATA \<Rightarrow> string \<Rightarrow> XML_DATA_TYPE \<Rightarrow> DRIVER_XML_DATA" where
  "DriverXmlAddPI ParentElement XmlString DataType =
     (case AsciiGetPIData XmlString of
        (Status, PiTargetName, PiTargetData) \<Rightarrow>
          (case ParentElement of
             DRIVER_XML_TAG PType PName PAttributes PChildren \<Rightarrow>
               DRIVER_XML_TAG PType PName PAttributes
                 (InsertTail PChildren (DRIVER_XML_PROCESSING_INSTRUCTION PiTargetName PiTargetData))
           | _ \<Rightarrow> ParentElement))"

section \<open>Markup or text\<close>

text \<open>
  The loop over leading whitespace: \<open>None\<close> where it returns \<open>EFI_END_OF_FILE\<close>,
  else the \<open>StrStart\<close> it stops at.
\<close>

function skip_leading_whitespace :: "memory \<Rightarrow> nat \<Rightarrow> nat \<Rightarrow> nat option" where
  "skip_leading_whitespace mem EndOfData StrStart =
     (if IsAsciiWhitespace (mem StrStart) then
        (if StrStart + 1 > EndOfData then None
         else skip_leading_whitespace mem EndOfData (StrStart + 1))
      else Some StrStart)"
  by pat_completeness auto
termination
  by (relation "measure (\<lambda>(mem, EndOfData, StrStart). EndOfData + 1 - StrStart)") auto

text \<open>
  \<open>AsciiExtractMarkupOrText\<close> returns its status, the document, \<open>*XmlString\<close> and
  \<open>*ExtractedType\<close>.  The status of the extractor it calls is stored and not looked
  at.  After \<open>AsciiExtractXmlTag\<close> the chunk is classified by reading \<open>*XmlString\<close>,
  which that extractor has not assigned when it returned \<open>EFI_END_OF_FILE\<close>.
\<close>

definition markup_done :: "nat \<Rightarrow> XML_DOCUMENT \<Rightarrow> string option \<Rightarrow> XML_DATA_TYPE \<Rightarrow> EFI_STATUS \<times> XML_DOCUMENT \<times> string option \<times> XML_DATA_TYPE" where
  "markup_done EndOfData XmlDoc XmlString ExtractedType =
     (if OperationPtr XmlDoc > EndOfData
      then (EFI_END_OF_FILE, XmlDoc\<lparr>OperationPtr := EndOfData\<rparr>, XmlString, ExtractedType)
      else (EFI_SUCCESS, XmlDoc, XmlString, ExtractedType))"

definition AsciiExtractMarkupOrText :: "memory \<Rightarrow> XML_DOCUMENT \<Rightarrow> fault + (EFI_STATUS \<times> XML_DOCUMENT \<times> string option \<times> XML_DATA_TYPE)" where
  "AsciiExtractMarkupOrText mem XmlDoc =
     (let EndOfData = XmlDocument XmlDoc + DocumentSize XmlDoc;
          StrStart = OperationPtr XmlDoc
      in if StrStart > EndOfData then Inr (EFI_END_OF_FILE, XmlDoc, None, XmlNothing)
         else
           (case skip_leading_whitespace mem EndOfData StrStart of
              None \<Rightarrow> Inr (EFI_END_OF_FILE, XmlDoc, None, XmlNothing)
            | Some StrStart \<Rightarrow>
                (if mem StrStart = CHR ''<'' then
                   (let XmlDoc = XmlDoc\<lparr>OperationPtr := StrStart\<rparr>
                    in if int EndOfData - int StrStart < 4
                       then Inr (EFI_DEVICE_ERROR, XmlDoc, None, XmlNothing)
                       else if IsAsciiComment (at_address mem StrStart) then
                         (case AsciiExtractComment mem XmlDoc of
                            (Status, XmlDoc, XmlString) \<Rightarrow> Inr (markup_done EndOfData XmlDoc XmlString XmlComment))
                       else if IsAsciiPI (at_address mem StrStart) then
                         (case AsciiExtractPI mem XmlDoc of
                            (Status, XmlDoc, XmlString) \<Rightarrow> Inr (markup_done EndOfData XmlDoc XmlString XmlPi))
                       else if IsAsciiDeclaration (at_address mem StrStart) then
                         (case AsciiExtractDeclaration mem XmlDoc of
                            (Status, XmlDoc, XmlString) \<Rightarrow> Inr (markup_done EndOfData XmlDoc XmlString XmlDecl))
                       else if IsAsciiXmlTag (at_address mem StrStart) then
                         (case AsciiExtractXmlTag mem XmlDoc of
                            (Status, XmlDoc, None) \<Rightarrow> Inl UninitializedRead
                          | (Status, XmlDoc, Some Chunk) \<Rightarrow>
                              Inr (markup_done EndOfData XmlDoc (Some Chunk)
                                     (if IsAsciiXmlCloseTag (heap_string Chunk) then XmlCloseTag
                                      else if IsAsciiEmptyElementXmlTag Chunk then XmlEmptyTag
                                      else XmlTag)))
                       else
                         (case AsciiExtractCharData mem XmlDoc of
                            (Status, XmlDoc, XmlString) \<Rightarrow> Inr (markup_done EndOfData XmlDoc XmlString XmlNothing)))
                 else
                   (case AsciiExtractCharData mem XmlDoc of
                      (Status, XmlDoc, XmlString) \<Rightarrow> Inr (EFI_SUCCESS, XmlDoc, XmlString, XmlChar)))))"

section \<open>Tree builder\<close>

text \<open>
  \<open>ParseBranch\<close> returns its status, the document and the parent as it leaves it, or
  a fault; \<open>None\<close> is a call that does not return.  The body of the \<open>while\<close> loop
  either returns or goes round again with the document and the parent as the iteration
  left them; going round again is written as a call on those.  (The test of the
  parent's type at the head of the function passes again on every such call: the
  iterations add children and never change the type.)  The variable \<open>Status\<close> that the
  nested call assigns is not read before the loop assigns it again or ends, and the
  function returns \<open>EFI_SUCCESS\<close> where the loop ends.

  The child a nested call works on is reached through a pointer into the parent's
  list; \<open>store_child\<close> writes what the call made of it back to that place.
\<close>

partial_function (option) ParseBranch :: "memory \<Rightarrow> XML_DOCUMENT \<Rightarrow> nat \<Rightarrow> DRIVER_XML_DATA \<Rightarrow> (fault + (EFI_STATUS \<times> XML_DOCUMENT \<times> DRIVER_XML_DATA)) option" where
  "ParseBranch mem Xml EndOfData Parent =
     (if XmlDataType Parent \<noteq> XmlTag then Some (Inr (EFI_INVALID_PARAMETER, Xml, Parent))
      else if \<not> OperationPtr Xml < EndOfData then Some (Inr (EFI_SUCCESS, Xml, Parent))
      else
        (case AsciiExtractMarkupOrText mem Xml of
           Inl f \<Rightarrow> Some (Inl f)
         | Inr (Status, Xml1, XmlString, DataType) \<Rightarrow>
             (if \<not> EFI_ERROR Status then
                (case XmlString of
                   None \<Rightarrow> Some (Inl UninitializedRead)
                 | Some Chunk \<Rightarrow>
                     (case DataType of
                        XmlPi \<Rightarrow> ParseBranch mem Xml1 EndOfData (DriverXmlAddPI Parent Chunk DataType)
                      | XmlDecl \<Rightarrow> ParseBranch mem Xml1 EndOfData Parent
                      | XmlChar \<Rightarrow>
                          ParseBranch mem Xml1 EndOfData
                            (store_children Parent
                               (DriverXmlAddCharData (TagChildren Parent) Chunk
                                  (UINTN_sub (OperationPtr Xml1) (OperationPtr Xml))))
                      | XmlTag \<Rightarrow>
                          (case DriverXmlAddTag Parent Chunk DataType of
                             Inl f \<Rightarrow> Some (Inl f)
                           | Inr (Parent1, LocalXmlData) \<Rightarrow>
                               (case LocalXmlData of
                                  Entry i \<Rightarrow>
                                    Option.bind
                                      (ParseBranch mem Xml1 EndOfData (ListStart (TagChildren Parent1) ! i))
                                      (\<lambda>r. case r of
                                            Inl f \<Rightarrow> Some (Inl f)
                                          | Inr (Status, Xml2, Child) \<Rightarrow>
                                              ParseBranch mem Xml2 EndOfData (store_child Parent1 i Child))
                                | NullPtr \<Rightarrow> Some (Inl NullDereference)
                                | Freed \<Rightarrow> Some (Inl UseAfterFree)
                                | _ \<Rightarrow> Some (Inl WildPointer)))
                      | XmlEmptyTag \<Rightarrow>
                          (case DriverXmlAddTag Parent Chunk DataType of
                             Inl f \<Rightarrow> Some (Inl f)
                           | Inr (Parent1, LocalXmlData) \<Rightarrow> ParseBranch mem Xml1 EndOfData Parent1)
                      | XmlCloseTag \<Rightarrow>
                          (case AsciiGetTagNameFromElement Chunk of
                             (Status, None) \<Rightarrow> Some (Inl UninitializedRead)
                           | (Status, Some Name) \<Rightarrow>
                               (case TagName Parent of
                                  None \<Rightarrow> Some (Inl NullDereference)
                                | Some ParentName \<Rightarrow>
                                    (if \<not> AsciiStrCmp_eq Name ParentName
                                     then Some (Inr (EFI_DEVICE_ERROR, Xml1, Parent))
                                     else Some (Inr (EFI_SUCCESS, Xml1, Parent)))))
                      | _ \<Rightarrow> ParseBranch mem Xml1 EndOfData Parent))
              else if Status = EFI_END_OF_FILE then
                (case TagName Parent of
                   None \<Rightarrow> Some (Inl NullDereference)
                 | Some ParentName \<Rightarrow>
                     (if AsciiStrCmp_eq ParentName ''Root''
                      then Some (Inr (EFI_SUCCESS, Xml1, Parent))
                      else Some (Inr (EFI_END_OF_FILE, Xml1, Parent))))
              else Some (Inr (Status, Xml1, Parent)))))"



partial_function (option) DriverXmlParse_loop :: "memory \<Rightarrow> XML_DOCUMENT \<Rightarrow> nat \<Rightarrow> DRIVER_XML_DATA \<Rightarrow> EFI_STATUS \<Rightarrow> (fault + (EFI_STATUS \<times> XML_DOCUMENT \<times> DRIVER_XML_DATA)) option" where
  "DriverXmlParse_loop mem Xml EndOfData Root Status =
     (if OperationPtr Xml < EndOfData then
        Option.bind (ParseBranch mem Xml EndOfData Root)
          (\<lambda>r. case r of
                Inl f \<Rightarrow> Some (Inl f)
              | Inr (Status, Xml, Root) \<Rightarrow>
                  (if EFI_ERROR Status then Some (Inr (Status, Xml, Root))
                   else DriverXmlParse_loop mem Xml EndOfData Root Status))
      else Some (Inr (Status, Xml, Root)))"


text \<open>
  \<open>DriverXmlParse\<close> returns the status it returns and \<open>*XmlTree\<close>, \<open>None\<close> where it
  does not write it.  \<open>DriverXmlParse_loop\<close> is its \<open>while\<close> loop and returns the
  variable \<open>Status\<close> as the loop leaves it.  The root is a zeroed tag named
  \<open>Root\<close> whose child list is initialised.
\<close>

definition DriverXmlParse :: "memory \<Rightarrow> nat \<Rightarrow> nat \<Rightarrow> (fault + (EFI_STATUS \<times> DRIVER_XML_DATA option)) option" where
  "DriverXmlParse mem XmlText DocSize =
     (let Root = DRIVER_XML_TAG XmlTag (Some ''Root'') (LIST_ANCHOR [] 0) (LIST_ANCHOR [] 0);
          Xml = \<lparr>XmlDocument = XmlText, DocumentSize = DocSize, OperationPtr = XmlText\<rparr>;
          EndOfData = XmlDocument Xml + DocumentSize Xml
      in Option.bind (DriverXmlParse_loop mem Xml EndOfData Root EFI_SUCCESS)
           (\<lambda>r. case r of
                 Inl f \<Rightarrow> Some (Inl f)
               | Inr (Status, Xml, Root) \<Rightarrow>
                   Some (Inr (EFI_SUCCESS, (if \<not> EFI_ERROR Status then Some Root else None)))))"

section \<open>Tree queries\<close>

text \<open>
  \<open>GetXmlTagByName\<close> returns its status and \<open>*OutputTag\<close>, which starts as the
  caller had it.  The body of its loop ends in \<open>return EFI_NOT_FOUND\<close>, so the loop
  runs at most once: on the first entry of the list.  \<open>Tag\<close> is assigned only where
  that entry is a tag or an empty tag, and is read in any case.  The status of the
  recursive call is not looked at.  Where \<open>ItemCount\<close> is positive and the list has
  no entry, what the loop is given as its first entry is the list head.
\<close>

function (sequential) GetXmlTagByName :: "string \<Rightarrow> DRIVER_XML_DATA LIST_ANCHOR \<Rightarrow> DRIVER_XML_DATA option \<Rightarrow> fault + (EFI_STATUS \<times> DRIVER_XML_DATA option)" where
  "GetXmlTagByName Name (LIST_ANCHOR [] count) OutputTag =
     (if count = 0 then Inr (EFI_NOT_FOUND, OutputTag) else Inl WildPointer)"
| "GetXmlTagByName Name (LIST_ANCHOR (DRIVER_XML_TAG DataType ThisName Attributes Children # rest) count) OutputTag =
     (if count = 0 then Inr (EFI_NOT_FOUND, OutputTag)
      else if DataType = XmlTag \<or> DataType = XmlEmptyTag then
        (case ThisName of
           None \<Rightarrow> Inl NullDereference
         | Some n \<Rightarrow>
             (if AsciiStrCmp_eq n Name
              then Inr (EFI_SUCCESS, Some (DRIVER_XML_TAG DataType ThisName Attributes Children))
              else if DataType = XmlTag \<and> ItemCount Children > 0 then
                (case GetXmlTagByName Name Children OutputTag of
                   Inl f \<Rightarrow> Inl f
                 | Inr (Status, Found) \<Rightarrow> Inr (EFI_NOT_FOUND, Found))
              else Inr (EFI_NOT_FOUND, OutputTag)))
      else Inl UninitializedRead)"
| "GetXmlTagByName Name (LIST_ANCHOR (LocalXmlData # rest) count) OutputTag =
     (if count = 0 then Inr (EFI_NOT_FOUND, OutputTag) else Inl UninitializedRead)"
  by pat_completeness auto
termination
  by (relation "measure (\<lambda>(Name, ElementList, OutputTag). size_LIST_ANCHOR size ElementList)") auto

section \<open>Serializer\<close>

text \<open>
  The output document lives in memory: \<open>XmlDocument\<close> and \<open>OperationPtr\<close> are
  addresses.  \<open>Pool\<close> lists the addresses the pool hands out for the buffers of the
  output document, in order; an allocation from an empty list returns NULL (address 0).
  A freed block is not handed out again.  Temporary buffers and nodes are values, not
  memory, and their allocation does not fail.
\<close>

record heap =
  Memory :: memory
  Pool :: "nat list"

type_synonym writer = "heap \<times> XML_DOCUMENT"

text \<open>
  \<open>CopyMem\<close> into memory of \<open>Length\<close> bytes read through \<open>Source\<close>;
  \<open>AllocateZeroPool\<close> and \<open>ReallocatePool\<close> as the memory allocation library has
  them (the second allocates a zeroed block, copies the smaller of the two sizes and
  frees the old block).
\<close>

definition CopyMem :: "memory \<Rightarrow> nat \<Rightarrow> (nat \<Rightarrow> char) \<Rightarrow> nat \<Rightarrow> memory" where
  "CopyMem mem Destination Source Length =
     (\<lambda>a. if Destination \<le> a \<and> a < Destination + Length then Source (a - Destination) else mem a)"

definition AllocateZeroPool :: "heap \<Rightarrow> nat \<Rightarrow> nat \<times> heap" where
  "AllocateZeroPool h AllocationSize =
     (case Pool h of
        [] \<Rightarrow> (0, h)
      | Buffer # rest \<Rightarrow>
          (Buffer, \<lparr>Memory = CopyMem (Memory h) Buffer (\<lambda>i. NUL) AllocationSize, Pool = rest\<rparr>))"

definition ReallocatePool :: "heap \<Rightarrow> nat \<Rightarrow> nat \<Rightarrow> nat \<Rightarrow> nat \<times> heap" where
  "ReallocatePool h OldSize NewSize OldBuffer =
     (case AllocateZeroPool h NewSize of
        (NewBuffer, h1) \<Rightarrow>
          (if NewBuffer \<noteq> 0 \<and> OldBuffer \<noteq> 0
           then (NewBuffer,
                 h1\<lparr>Memory := CopyMem (Memory h1) NewBuffer (at_address (Memory h1) OldBuffer)
                                 (min OldSize NewSize)\<rparr>)
           else (NewBuffer, h1)))"

definition MAX_TEMP_BUFFER_SIZE :: nat where
  "MAX_TEMP_BUFFER_SIZE = 128"

definition OUTPUT_DOCUMENT_ALLOCATE_STEP :: nat where
  "OUTPUT_DOCUMENT_ALLOCATE_STEP = 512"

definition ReallocateXmlDocument :: "writer \<Rightarrow> nat \<Rightarrow> EFI_STATUS \<times> writer" where
  "ReallocateXmlDocument w NewSize =
     (case w of
        (h, OutputDocument) \<Rightarrow>
          (case (if DocumentSize OutputDocument = 0 then
                   (if NewSize = 0 then Inl EFI_INVALID_PARAMETER
                    else
                      (case AllocateZeroPool h NewSize of
                         (Buffer, h1) \<Rightarrow>
                           Inr (h1, OutputDocument\<lparr>XmlDocument := Buffer, OperationPtr := Buffer,
                                                   DocumentSize := NewSize\<rparr>)))
                 else Inr (h, OutputDocument)) of
             Inl Status \<Rightarrow> (Status, w)
           | Inr (h, OutputDocument) \<Rightarrow>
               (let OpPtrOffset = UINTN_sub (OperationPtr OutputDocument) (XmlDocument OutputDocument)
                in case ReallocatePool h (DocumentSize OutputDocument) NewSize (XmlDocument OutputDocument) of
                     (TmpBuffer, h2) \<Rightarrow>
                       (if TmpBuffer = 0 then (EFI_OUT_OF_RESOURCES, (h2, OutputDocument))
                        else (EFI_SUCCESS,
                              (h2, OutputDocument\<lparr>XmlDocument := TmpBuffer, DocumentSize := NewSize,
                                     OperationPtr := (TmpBuffer + OpPtrOffset) mod UINTN_MAX\<rparr>))))))"

text \<open>
  \<open>AsciiStrnLenS\<close> and \<open>AsciiSPrint\<close> are functions of the platform's base and print
  libraries, not of this repository; they are written here from their documented
  contracts.  \<open>AsciiStrnLenS (String, MaxSize)\<close> is the length of the string, or
  \<open>MaxSize\<close> where no NUL comes before that.  \<open>AsciiSPrint (Buffer, BufferSize, ...)\<close>
  writes at most \<open>BufferSize - 1\<close> characters of the formatted text and a NUL, and
  returns the number of characters written; with \<open>BufferSize\<close> zero it writes nothing.
  The model takes the formatted text as an argument and returns the string the buffer
  then holds; \<open>percent_a\<close> is what the format \<open>%a\<close> prints for a \<open>CHAR8*\<close>.
\<close>

definition AsciiStrnLenS :: "string \<Rightarrow> nat \<Rightarrow> nat" where
  "AsciiStrnLenS String MaxSize = min (AsciiStrLen String) MaxSize"

definition AsciiSPrint :: "string \<Rightarrow> nat \<Rightarrow> string \<Rightarrow> string" where
  "AsciiSPrint StartOfBuffer BufferSize Formatted =
     (if BufferSize = 0 then StartOfBuffer else take (BufferSize - 1) Formatted)"

definition percent_a :: "string option \<Rightarrow> string" where
  "percent_a String =
     (case String of
        None \<Rightarrow> ''<null string>''
      | Some s \<Rightarrow> takeWhile (\<lambda>c. c \<noteq> NUL) s)"

definition StringToDocument :: "string \<Rightarrow> writer \<Rightarrow> EFI_STATUS \<times> writer" where
  "StringToDocument String w =
     (case w of
        (h, OutputDocument) \<Rightarrow>
          (let StringLen = AsciiStrnLenS String MAX_TEMP_BUFFER_SIZE;
               DocumentFreeSize =
                 UINTN_sub (XmlDocument OutputDocument + DocumentSize OutputDocument)
                   (OperationPtr OutputDocument)
           in case (if StringLen > DocumentFreeSize then
                      (if StringLen > OUTPUT_DOCUMENT_ALLOCATE_STEP
                       then snd (ReallocateXmlDocument w
                                   (UINTN_add (UINTN_add (DocumentSize OutputDocument) StringLen) 1))
                       else snd (ReallocateXmlDocument w
                                   (UINTN_add (DocumentSize OutputDocument) OUTPUT_DOCUMENT_ALLOCATE_STEP)))
                    else w) of
                (h, OutputDocument) \<Rightarrow>
                  (EFI_SUCCESS,
                   (h\<lparr>Memory := CopyMem (Memory h) (OperationPtr OutputDocument)
                                    (heap_string String) StringLen\<rparr>,
                    OutputDocument\<lparr>OperationPtr := OperationPtr OutputDocument + StringLen\<rparr>))))"

definition PrintAttribute :: "DRIVER_XML_DATA \<Rightarrow> writer \<Rightarrow> EFI_STATUS \<times> writer" where
  "PrintAttribute Data w =
     (case Data of
        DRIVER_XML_ATTRIBUTE AttributeName AttributeData \<Rightarrow>
          (let TmpBuffer = AsciiSPrint [] (MAX_TEMP_BUFFER_SIZE - 0)
                 ('' '' @ percent_a AttributeName @ [CHR ''='', CHR 0x22]
                    @ percent_a (if AttributeData = None then Some [] else AttributeData) @ [CHR 0x22])
           in (EFI_SUCCESS, snd (StringToDocument TmpBuffer w)))
      | _ \<Rightarrow> (EFI_UNSUPPORTED, w))"

definition PrintPi :: "DRIVER_XML_DATA \<Rightarrow> writer \<Rightarrow> EFI_STATUS \<times> writer" where
  "PrintPi Data w =
     (case Data of
        DRIVER_XML_PROCESSING_INSTRUCTION PiTargetName PiTargetData \<Rightarrow>
          (let TmpBuffer = AsciiSPrint [] (MAX_TEMP_BUFFER_SIZE - 0)
                 (''<?'' @ percent_a PiTargetName @ '' '' @ percent_a PiTargetData @ ''?>'')
           in (EFI_SUCCESS, snd (StringToDocument TmpBuffer w)))
      | _ \<Rightarrow> (EFI_UNSUPPORTED, w))"

definition PrintCharData :: "DRIVER_XML_DATA \<Rightarrow> writer \<Rightarrow> EFI_STATUS \<times> writer" where
  "PrintCharData Data w =
     (case Data of
        DRIVER_XML_CHAR_DATA DataSize CharData \<Rightarrow>
          (case w of
             (h, OutputDocument) \<Rightarrow>
               (let DocumentFreeSize =
                      UINTN_sub (XmlDocument OutputDocument + DocumentSize OutputDocument)
                        (OperationPtr OutputDocument)
                in case (if DataSize > DocumentFreeSize then
                           (if DataSize > OUTPUT_DOCUMENT_ALLOCATE_STEP
                            then snd (ReallocateXmlDocument w
                                        (UINTN_add (UINTN_add (DocumentSize OutputDocument) DataSize) 1))
                            else snd (ReallocateXmlDocument w
                                        (UINTN_add (DocumentSize OutputDocument)
                                           OUTPUT_DOCUMENT_ALLOCATE_STEP)))
                         else w) of
                     (h, OutputDocument) \<Rightarrow>
                       (EFI_SUCCESS,
                        (h\<lparr>Memory := CopyMem (Memory h) (OperationPtr OutputDocument)
                                         (heap_string CharData) DataSize\<rparr>,
                         OutputDocument\<lparr>OperationPtr := OperationPtr OutputDocument + DataSize\<rparr>))))
      | _ \<Rightarrow> (EFI_UNSUPPORTED, w))"

lemma size_ListStart: "size_list size (ListStart L) < size_LIST_ANCHOR size L"
  by (cases L) simp

lemma size_ListStart_attributes:
  "3 * size_list size (ListStart A) < 4 + (3 * size_LIST_ANCHOR size A + 3 * size_LIST_ANCHOR size C)"
  using size_ListStart [of A] by linarith

lemma size_ListStart_children:
  "3 * size_list size (ListStart C) < 4 + (3 * size_LIST_ANCHOR size A + 3 * size_LIST_ANCHOR size C)"
  using size_ListStart [of C] by linarith

text \<open>
  The printers.  \<open>PrintData\<close> tries the handlers of \<open>XML_PRINT_FUNCTIONS\<close> in order
  until one answers \<open>EFI_SUCCESS\<close>; each handler answers \<open>EFI_UNSUPPORTED\<close>, and
  writes nothing, for a node of another type.  The loops over a list start at the list
  head and call \<open>GetNextXmlElement\<close> until it fails, which visits the entries in
  order; they are recursions over the entries.  \<open>PrintTag\<close> walks its lists only where
  \<open>ItemCount\<close> is positive, and builds the closing tag with the buffer size
  \<open>MAX_TEMP_BUFFER_SIZE - BufferOffset\<close>, \<open>BufferOffset\<close> being what \<open>AsciiSPrint\<close>
  returned for the opening one.

  The recursion over the entries is the walk of a list that has an entry wherever its
  \<open>ItemCount\<close> is positive, as every list has that \<open>InsertTail\<close> has built.  On a
  positive \<open>ItemCount\<close> with no entry \<open>GetNextXmlElement\<close> hands the list head back
  to the loops of the code as an entry, again and again, and they do not return.  The
  printers of the code test the field \<open>XmlDataType\<close> alone, so a \<open>DRIVER_XML_TAG\<close>
  whose field holds \<open>XmlAttribute\<close>, \<open>XmlPi\<close> or \<open>XmlChar\<close> is read by them as a
  node of that type; here such a node is answered \<open>EFI_UNSUPPORTED\<close> by every
  printer.  What is proved of the printers for all trees is therefore stated for
  the trees with \<open>anchors_walkable\<close> (below), whose tags are typed \<open>XmlTag\<close> or
  \<open>XmlEmptyTag\<close> and whose lists with a positive count have an entry.
\<close>

function (sequential) PrintTag :: "DRIVER_XML_DATA \<Rightarrow> writer \<Rightarrow> EFI_STATUS \<times> writer"
  and PrintEmptyTag :: "DRIVER_XML_DATA \<Rightarrow> writer \<Rightarrow> EFI_STATUS \<times> writer"
  and PrintEmptyTag_loop :: "DRIVER_XML_DATA list \<Rightarrow> writer \<Rightarrow> writer"
  and PrintData :: "DRIVER_XML_DATA \<Rightarrow> writer \<Rightarrow> EFI_STATUS \<times> writer"
  and PrintWalkBranch_loop :: "DRIVER_XML_DATA list \<Rightarrow> writer \<Rightarrow> writer"
where
  "PrintTag (DRIVER_XML_TAG DataType Name AttributeList ChildList) w =
     (if DataType \<noteq> XmlTag then (EFI_UNSUPPORTED, w)
      else
        (let TmpBuffer = AsciiSPrint [] (MAX_TEMP_BUFFER_SIZE - 0) (''<'' @ percent_a Name);
             BufferOffset = length TmpBuffer;
             w = snd (StringToDocument TmpBuffer w);
             w = (if ItemCount AttributeList > 0 then PrintWalkBranch_loop (ListStart AttributeList) w
                    else w);
             w = snd (StringToDocument ''>'' w);
             w = (if ItemCount ChildList > 0 then PrintWalkBranch_loop (ListStart ChildList) w
                    else w);
             TmpBuffer = AsciiSPrint TmpBuffer (MAX_TEMP_BUFFER_SIZE - BufferOffset)
                           (''</'' @ percent_a Name @ ''>'')
         in (EFI_SUCCESS, snd (StringToDocument TmpBuffer w))))"
| "PrintTag (DRIVER_XML_ATTRIBUTE AttributeName AttributeData) w = (EFI_UNSUPPORTED, w)"
| "PrintTag (DRIVER_XML_CHAR_DATA DataSize CharData) w = (EFI_UNSUPPORTED, w)"
| "PrintTag (DRIVER_XML_PROCESSING_INSTRUCTION PiTargetName PiTargetData) w = (EFI_UNSUPPORTED, w)"
| "PrintEmptyTag (DRIVER_XML_TAG DataType Name AttributeList ChildList) w =
     (if DataType \<noteq> XmlEmptyTag then (EFI_UNSUPPORTED, w)
      else
        (let TmpBuffer = AsciiSPrint [] (MAX_TEMP_BUFFER_SIZE - 0) (''<'' @ percent_a Name);
             BufferOffset = length TmpBuffer;
             w = snd (StringToDocument TmpBuffer w);
             w = (if ItemCount AttributeList > 0 then PrintEmptyTag_loop (ListStart AttributeList) w
                    else w);
             TmpBuffer = AsciiSPrint TmpBuffer (MAX_TEMP_BUFFER_SIZE - BufferOffset) ''/>''
         in (EFI_SUCCESS, snd (StringToDocument TmpBuffer w))))"
| "PrintEmptyTag (DRIVER_XML_ATTRIBUTE AttributeName AttributeData) w = (EFI_UNSUPPORTED, w)"
| "PrintEmptyTag (DRIVER_XML_CHAR_DATA DataSize CharData) w = (EFI_UNSUPPORTED, w)"
| "PrintEmptyTag (DRIVER_XML_PROCESSING_INSTRUCTION PiTargetName PiTargetData) w = (EFI_UNSUPPORTED, w)"
| "PrintEmptyTag_loop [] w = w"
| "PrintEmptyTag_loop (LocalXmlData # rest) w =
     (if XmlDataType LocalXmlData \<noteq> XmlAttribute then PrintEmptyTag_loop rest w
      else PrintEmptyTag_loop rest (snd (PrintData LocalXmlData w)))"
| "PrintData Data w =
     (case PrintAttribute Data w of
        (Status, w1) \<Rightarrow>
          (if Status = EFI_SUCCESS then (Status, w1)
           else
             (case PrintTag Data w1 of
                (Status, w2) \<Rightarrow>
                  (if Status = EFI_SUCCESS then (Status, w2)
                   else
                     (case PrintEmptyTag Data w2 of
                        (Status, w3) \<Rightarrow>
                          (if Status = EFI_SUCCESS then (Status, w3)
                           else
                             (case PrintPi Data w3 of
                                (Status, w4) \<Rightarrow>
                                  (if Status = EFI_SUCCESS then (Status, w4)
                                   else
                                     (case PrintCharData Data w4 of
                                        (Status, w5) \<Rightarrow>
                                          (if Status = EFI_SUCCESS then (Status, w5)
                                           else (EFI_UNSUPPORTED, w5)))))))))))"
| "PrintWalkBranch_loop [] w = w"
| "PrintWalkBranch_loop (BranchData # rest) w =
     PrintWalkBranch_loop rest (snd (PrintData BranchData w))"
  by pat_completeness auto

termination
  by (relation "measure (\<lambda>x. case x of
          Inl (Inl (Data, w)) \<Rightarrow> 3 * size Data + 1
        | Inl (Inr (Data, w)) \<Rightarrow> 3 * size Data + 1
        | Inr (Inl (entries, w)) \<Rightarrow> 3 * size_list size entries
        | Inr (Inr (Inl (Data, w))) \<Rightarrow> 3 * size Data + 2
        | Inr (Inr (Inr (entries, w))) \<Rightarrow> 3 * size_list size entries)")
     (auto simp: size_ListStart_attributes size_ListStart_children)


section \<open>Memory images\<close>

text \<open>
  \<open>load base s mem\<close> is \<open>mem\<close> with the bytes of \<open>s\<close> stored from address
  \<open>base\<close> on; \<open>zeroed\<close> is memory that holds NUL everywhere.
\<close>

definition load :: "nat \<Rightarrow> string \<Rightarrow> memory \<Rightarrow> memory" where
  "load base s mem = (\<lambda>a. if base \<le> a \<and> a < base + length s then s ! (a - base) else mem a)"

definition zeroed :: memory where
  "zeroed = (\<lambda>a. NUL)"

text \<open>
  The output document as the test application sets it up before it prints (size 0, both
  pointers NULL), in zeroed memory, with a pool that hands out the blocks at 8192 and
  12288; and the bytes written so far, from \<open>XmlDocument\<close> up to \<open>OperationPtr\<close>.
\<close>

definition fresh_writer :: writer where
  "fresh_writer =
     (\<lparr>Memory = zeroed, Pool = [8192, 12288]\<rparr>,
      \<lparr>XmlDocument = 0, DocumentSize = 0, OperationPtr = 0\<rparr>)"

definition document_text :: "writer \<Rightarrow> string" where
  "document_text w =
     (case w of
        (h, OutputDocument) \<Rightarrow>
          read_bytes (Memory h) (XmlDocument OutputDocument)
            (OperationPtr OutputDocument - XmlDocument OutputDocument))"

text \<open>
  \<open>parse_document s\<close> is \<open>DriverXmlParse\<close> called on a buffer that holds exactly the
  bytes of \<open>s\<close>, at address 4096 of zeroed memory, with \<open>DocSize\<close> the length of \<open>s\<close>.
\<close>

definition parse_document :: "string \<Rightarrow> (fault + (EFI_STATUS \<times> DRIVER_XML_DATA option)) option" where
  "parse_document s = DriverXmlParse (load 4096 s zeroed) 4096 (length s)"

text \<open>
  What the serializer keeps about its output document between writes.
  \<open>free_size\<close> is the value \<open>StringToDocument\<close> and \<open>PrintCharData\<close> compute as
  \<open>DocumentFreeSize\<close>.  \<open>document_ok\<close> says that the cursor lies inside the buffer and
  that the buffer ends below \<open>2 ^ 63\<close>.
\<close>

definition free_size :: "XML_DOCUMENT \<Rightarrow> nat" where
  "free_size d = UINTN_sub (XmlDocument d + DocumentSize d) (OperationPtr d)"

definition document_ok :: "XML_DOCUMENT \<Rightarrow> bool" where
  "document_ok d =
     (XmlDocument d \<le> OperationPtr d \<and> OperationPtr d \<le> XmlDocument d + DocumentSize d
      \<and> XmlDocument d + DocumentSize d < 2 ^ 63)"

text \<open>
  The growth of the buffer as the specification, and the comment in \<open>StringToDocument\<close>
  and \<open>PrintCharData\<close>, word it: the fixed increment for a pending write smaller than
  the increment, the pending size plus one otherwise.
\<close>

definition growth_as_specified :: "nat \<Rightarrow> nat" where
  "growth_as_specified Pending =
     (if Pending < OUTPUT_DOCUMENT_ALLOCATE_STEP then OUTPUT_DOCUMENT_ALLOCATE_STEP else Pending + 1)"

text \<open>
  A document whose buffer of 512 bytes at 8192 is full (it holds 512 times the letter
  \<open>x\<close>), with a pool that hands out the blocks at 12288 and 16384.
\<close>

definition full_writer :: writer where
  "full_writer =
     (\<lparr>Memory = load 8192 (replicate 512 (CHR ''x'')) zeroed, Pool = [12288, 16384]\<rparr>,
      \<lparr>XmlDocument = 8192, DocumentSize = 512, OperationPtr = 8704\<rparr>)"

text \<open>
  \<open>last_written n w\<close> is the \<open>n\<close> bytes of the output document that lie just before
  the write cursor.
\<close>

definition last_written :: "nat \<Rightarrow> writer \<Rightarrow> string" where
  "last_written n w =
     (case w of
        (h, OutputDocument) \<Rightarrow> read_bytes (Memory h) (OperationPtr OutputDocument - n) n)"

text \<open>
  The pieces the printers format, as strings: what \<open>AsciiSPrint\<close> leaves in the
  buffer of 128 bytes is the first 127 characters of the formatted text, and what it
  leaves where it is given the size \<open>128 - BufferOffset\<close> is the first
  \<open>127 - BufferOffset\<close> characters.
\<close>

definition opener_piece :: "string option \<Rightarrow> string" where
  "opener_piece Name = take 127 (''<'' @ percent_a Name)"

definition closer_piece :: "string option \<Rightarrow> string" where
  "closer_piece Name = take (127 - length (opener_piece Name)) (''</'' @ percent_a Name @ ''>'')"

definition empty_closer_piece :: "string option \<Rightarrow> string" where
  "empty_closer_piece Name = take (127 - length (opener_piece Name)) ''/>''"

definition attribute_piece :: "string option \<Rightarrow> string option \<Rightarrow> string" where
  "attribute_piece AttributeName AttributeData =
     take 127 ('' '' @ percent_a AttributeName @ [CHR ''='', CHR 0x22]
               @ percent_a (if AttributeData = None then Some [] else AttributeData) @ [CHR 0x22])"

definition pi_piece :: "string option \<Rightarrow> string option \<Rightarrow> string" where
  "pi_piece PiTargetName PiTargetData =
     take 127 (''<?'' @ percent_a PiTargetName @ '' '' @ percent_a PiTargetData @ ''?>'')"

text \<open>
  \<open>rendered Data\<close> is the text of a node made of these pieces: for a tag the opening
  tag, the attributes, \<open>>\<close>, the children and the closing tag; for an empty tag the
  opening tag, the entries of the attribute list that are attributes, and \<open>/>\<close>; a list
  is left out where its \<open>ItemCount\<close> is zero.  \<open>anchors_walkable Data\<close> says that
  every tag of the tree is typed \<open>XmlTag\<close> or \<open>XmlEmptyTag\<close> and that every list with
  a positive \<open>ItemCount\<close> has an entry, as it has where \<open>ItemCount\<close> is the number of
  entries.
\<close>

fun rendered :: "DRIVER_XML_DATA \<Rightarrow> string" where
  "rendered (DRIVER_XML_TAG DataType Name (LIST_ANCHOR attributes an) (LIST_ANCHOR children cn)) =
     (if DataType = XmlTag then
        opener_piece Name
        @ (if an > 0 then concat (map rendered attributes) else [])
        @ ''>''
        @ (if cn > 0 then concat (map rendered children) else [])
        @ closer_piece Name
      else if DataType = XmlEmptyTag then
        opener_piece Name
        @ (if an > 0
           then concat (map rendered (filter (\<lambda>a. XmlDataType a = XmlAttribute) attributes))
           else [])
        @ empty_closer_piece Name
      else [])"
| "rendered (DRIVER_XML_ATTRIBUTE AttributeName AttributeData) =
     attribute_piece AttributeName AttributeData"
| "rendered (DRIVER_XML_CHAR_DATA DataSize CharData) = heap_bytes CharData 0 DataSize"
| "rendered (DRIVER_XML_PROCESSING_INSTRUCTION PiTargetName PiTargetData) =
     pi_piece PiTargetName PiTargetData"

fun anchors_walkable :: "DRIVER_XML_DATA \<Rightarrow> bool" where
  "anchors_walkable (DRIVER_XML_TAG DataType Name (LIST_ANCHOR attributes an) (LIST_ANCHOR children cn)) =
     ((DataType = XmlTag \<or> DataType = XmlEmptyTag)
      \<and> (an = 0 \<or> attributes \<noteq> []) \<and> (cn = 0 \<or> children \<noteq> [])
      \<and> list_all anchors_walkable attributes \<and> list_all anchors_walkable children)"
| "anchors_walkable (DRIVER_XML_ATTRIBUTE AttributeName AttributeData) = True"
| "anchors_walkable (DRIVER_XML_CHAR_DATA DataSize CharData) = True"
| "anchors_walkable (DRIVER_XML_PROCESSING_INSTRUCTION PiTargetName PiTargetData) = True"

text \<open>
  \<open>emits s w w'\<close>: from \<open>w\<close> to \<open>w'\<close> the document has stayed where it is, the cursor
  has moved on by the length of \<open>s\<close>, and the text is the text of \<open>w\<close> followed by
  \<open>s\<close>.  \<open>has_room n w\<close>: the cursor of \<open>w\<close> lies inside the buffer and \<open>n\<close> more
  bytes fit.
\<close>

definition emits :: "string \<Rightarrow> writer \<Rightarrow> writer \<Rightarrow> bool" where
  "emits s w w' =
     (snd w' = (snd w)\<lparr>OperationPtr := OperationPtr (snd w) + length s\<rparr>
      \<and> document_text w' = document_text w @ s)"

definition has_room :: "nat \<Rightarrow> writer \<Rightarrow> bool" where
  "has_room n w = (document_ok (snd w) \<and> n \<le> free_size (snd w))"

text \<open>
  The writes of a printer, in order: a formatted piece, which goes through
  \<open>StringToDocument\<close>, or a run of character data, which \<open>PrintCharData\<close> copies
  itself.  \<open>pieces Data\<close> lists the writes for a node, \<open>copy_piece\<close> does one write,
  \<open>piece_text\<close> is the text a write is meant to add, and \<open>fits_buffer\<close> says of a
  formatted piece that it is a string of fewer than \<open>MAX_TEMP_BUFFER_SIZE\<close> characters.
\<close>

datatype piece = Formatted string | CharacterData nat string

fun piece_text :: "piece \<Rightarrow> string" where
  "piece_text (Formatted s) = s"
| "piece_text (CharacterData DataSize CharData) = heap_bytes CharData 0 DataSize"

fun copy_piece :: "piece \<Rightarrow> writer \<Rightarrow> writer" where
  "copy_piece (Formatted s) w = snd (StringToDocument s w)"
| "copy_piece (CharacterData DataSize CharData) w =
     snd (PrintCharData (DRIVER_XML_CHAR_DATA DataSize CharData) w)"

fun fits_buffer :: "piece \<Rightarrow> bool" where
  "fits_buffer (Formatted s) = (length s < MAX_TEMP_BUFFER_SIZE \<and> NUL \<notin> set s)"
| "fits_buffer (CharacterData DataSize CharData) = True"

fun pieces :: "DRIVER_XML_DATA \<Rightarrow> piece list" where
  "pieces (DRIVER_XML_TAG DataType Name (LIST_ANCHOR attributes an) (LIST_ANCHOR children cn)) =
     (if DataType = XmlTag then
        Formatted (opener_piece Name)
        # (if an > 0 then concat (map pieces attributes) else [])
        @ Formatted ''>''
        # (if cn > 0 then concat (map pieces children) else [])
        @ [Formatted (closer_piece Name)]
      else if DataType = XmlEmptyTag then
        Formatted (opener_piece Name)
        # (if an > 0
           then concat (map pieces (filter (\<lambda>a. XmlDataType a = XmlAttribute) attributes))
           else [])
        @ [Formatted (empty_closer_piece Name)]
      else [])"
| "pieces (DRIVER_XML_ATTRIBUTE AttributeName AttributeData) =
     [Formatted (attribute_piece AttributeName AttributeData)]"
| "pieces (DRIVER_XML_CHAR_DATA DataSize CharData) = [CharacterData DataSize CharData]"
| "pieces (DRIVER_XML_PROCESSING_INSTRUCTION PiTargetName PiTargetData) =
     [Formatted (pi_piece PiTargetName PiTargetData)]"

section \<open>Evaluation\<close>

lemma IsStrLenAtLeast_2:
  "IsStrLenAtLeast Str 2 = (Str 0 \<noteq> NUL \<and> Str 1 \<noteq> NUL \<and> Str 2 \<noteq> NUL)"
  by (simp add: eval_nat_numeral)

lemma IsStrLenAtLeast_3:
  "IsStrLenAtLeast Str 3 = (Str 0 \<noteq> NUL \<and> Str 1 \<noteq> NUL \<and> Str 2 \<noteq> NUL \<and> Str 3 \<noteq> NUL)"
  by (simp add: eval_nat_numeral)

lemma IsStrLenAtLeast_4:
  "IsStrLenAtLeast Str 4 =
     (Str 0 \<noteq> NUL \<and> Str 1 \<noteq> NUL \<and> Str 2 \<noteq> NUL \<and> Str 3 \<noteq> NUL \<and> Str 4 \<noteq> NUL)"
  by (simp add: eval_nat_numeral)

lemmas extract_defs =
  AsciiExtractMarkupOrText_def AsciiExtractXmlTag_def AsciiExtractCharData_def AsciiExtractPI_def
  AsciiExtractComment_def AsciiExtractDeclaration_def AsciiExtractBoxedData_def
  load_def zeroed_def NUL_def read_bytes_def at_address_def heap_string_def heap_bytes_def
  markup_done_def IsAsciiWhitespace_def IsAsciiComment_def IsAsciiPI_def IsAsciiDeclaration_def
  IsAsciiXmlTag_def IsAsciiXmlCloseTag_def IsAsciiEmptyElementXmlTag_def IsAsciiXmlTagEndStr_def
  IsAsciiNameStartChar_def IsAsciiNameChar_def IsAsciiXmlChar_def in_range_def AsciiStrLen_def
  IsStrLenAtLeast_2 IsStrLenAtLeast_3 IsStrLenAtLeast_4 Let_def

lemmas print_defs =
  PrintAttribute_def PrintPi_def PrintCharData_def StringToDocument_def
  ReallocateXmlDocument_def ReallocatePool_def AllocateZeroPool_def CopyMem_def AsciiSPrint_def
  AsciiStrnLenS_def percent_a_def MAX_TEMP_BUFFER_SIZE_def OUTPUT_DOCUMENT_ALLOCATE_STEP_def
  UINTN_sub_def UINTN_add_def UINTN_MAX_def document_text_def fresh_writer_def AsciiStrLen_def
  NUL_def heap_string_def read_bytes_def at_address_def zeroed_def Let_def

lemmas parse_defs =
  DriverXmlParse_def parse_document_def DriverXmlParse_loop.simps ParseBranch.simps
  AsciiGetTagNameFromElement_def AsciiGetPIData_def AsciiExtractAttribute_def
  IsAsciiXmlTagWithAttributes_def ParseAttributes_def DriverXmlAddTag_def DriverXmlAddPI_def
  DriverXmlAddCharData_def DriverXmlAddAttribute_def DriverXmlCreateChildTag_def
  DriverXmlCreateTag_def InsertTail_def TagName_def TagChildren_def TagAttributes_def
  store_child_def store_children_def AsciiStrCmp_eq_def EFI_ERROR_def
  UINTN_inc_def UINTN_dec_def UINTN_sub_def UINTN_MAX_def

section \<open>Extractors at the end of the input\<close>

text \<open>
  C7.  The specification asks every extractor scan that reaches the end of the input
  before its terminator to fail with \<open>EFI_END_OF_FILE\<close>.  The extractors test
  \<open>LocalPtr > EndOfData\<close> after a loop that never moves \<open>LocalPtr\<close> past
  \<open>EndOfData\<close> unless it has found the terminator, so the test does not see a missing
  terminator: a processing instruction, a declaration and a tag that the buffer cuts
  short are each returned as a chunk with \<open>EFI_SUCCESS\<close>.
\<close>

theorem extract_truncated_chunk_succeeds:
  "AsciiExtractPI (load 4096 ''<?abcdef'' zeroed)
      \<lparr>XmlDocument = 4096, DocumentSize = 8, OperationPtr = 4096\<rparr>
    = (EFI_SUCCESS, \<lparr>XmlDocument = 4096, DocumentSize = 8, OperationPtr = 4101\<rparr>, Some ''<?abc'')
   \<and> AsciiExtractDeclaration (load 4096 ''<!DOCTYPE a'' zeroed)
      \<lparr>XmlDocument = 4096, DocumentSize = 11, OperationPtr = 4096\<rparr>
    = (EFI_SUCCESS, \<lparr>XmlDocument = 4096, DocumentSize = 11, OperationPtr = 4105\<rparr>, Some ''<!DOCTYP'')
   \<and> AsciiExtractXmlTag (load 4096 ''<abc'' zeroed)
      \<lparr>XmlDocument = 4096, DocumentSize = 4, OperationPtr = 4096\<rparr>
    = (EFI_SUCCESS, \<lparr>XmlDocument = 4096, DocumentSize = 4, OperationPtr = 4100\<rparr>, Some ''<abc'')"
  by (simp add: AsciiExtractPI_def AsciiExtractDeclaration_def AsciiExtractXmlTag_def
      load_def zeroed_def NUL_def read_bytes_def)

section \<open>The status the parser returns\<close>

text \<open>
  C1.  The specification asks \<open>DriverXmlParse\<close> to hand the terminal status of parsing
  to its caller, so that no tree comes with \<open>EFI_SUCCESS\<close> once an invocation of
  \<open>ParseBranch\<close> has failed.  On the seven bytes \<open><a></b>\<close> the invocation of
  \<open>ParseBranch\<close> for the element \<open>a\<close> (entered with \<open>OperationPtr\<close> behind the
  open tag) returns \<open>EFI_DEVICE_ERROR\<close> for the mismatched close tag; the invocation
  for the root stores that status in a variable it does not read again and returns
  \<open>EFI_SUCCESS\<close> when its loop ends; and \<open>DriverXmlParse\<close>, whose last statement is
  \<open>return EFI_SUCCESS\<close>, returns success together with the tree.
\<close>

theorem parse_returns_success_after_failed_branch:
  "ParseBranch (load 4096 ''<a></b>'' zeroed)
       \<lparr>XmlDocument = 4096, DocumentSize = 7, OperationPtr = 4099\<rparr> 4103
       (DRIVER_XML_TAG XmlTag (Some ''a'') (LIST_ANCHOR [] 0) (LIST_ANCHOR [] 0))
     = Some (Inr (EFI_DEVICE_ERROR, \<lparr>XmlDocument = 4096, DocumentSize = 7, OperationPtr = 4103\<rparr>,
                  DRIVER_XML_TAG XmlTag (Some ''a'') (LIST_ANCHOR [] 0) (LIST_ANCHOR [] 0)))
   \<and> parse_document ''<a></b>''
     = Some (Inr (EFI_SUCCESS,
          Some (DRIVER_XML_TAG XmlTag (Some ''Root'') (LIST_ANCHOR [] 0)
                 (LIST_ANCHOR [DRIVER_XML_TAG XmlTag (Some ''a'') (LIST_ANCHOR [] 0) (LIST_ANCHOR [] 0)] 1))))"
  by (simp add: parse_defs extract_defs)

text \<open>
  C2.  The specification asks for the malformed-input error, and no usable tree, on any
  input with a close tag that does not name the innermost open element.  Its own
  scenario C, the input \<open><a><b></a>\<close>, is parsed to the tree \<open>Root\<close>, \<open>a\<close>, \<open>b\<close>
  and returned with \<open>EFI_SUCCESS\<close>: the invocation for \<open>b\<close> fails on \<open></a>\<close>, the
  invocation for \<open>a\<close> drops that status and finds the input at its end.
\<close>

theorem mismatched_close_tag_is_accepted:
  "parse_document ''<a><b></a>''
     = Some (Inr (EFI_SUCCESS,
          Some (DRIVER_XML_TAG XmlTag (Some ''Root'') (LIST_ANCHOR [] 0)
                 (LIST_ANCHOR
                   [DRIVER_XML_TAG XmlTag (Some ''a'') (LIST_ANCHOR [] 0)
                      (LIST_ANCHOR
                         [DRIVER_XML_TAG XmlTag (Some ''b'') (LIST_ANCHOR [] 0) (LIST_ANCHOR [] 0)] 1)] 1))))"
  by (simp add: parse_defs extract_defs)

text \<open>
  C3.  The specification asks for the end-of-file error on any input that opens an
  element and ends before closing it.  \<open>ParseBranch\<close> tests for an unclosed element only
  where the extractor reports \<open>EFI_END_OF_FILE\<close>; where the input ends at a chunk
  boundary its loop condition fails first and it returns \<open>EFI_SUCCESS\<close>.  The input
  \<open><ab>\<close>, and an input that ends inside the second of two items, are returned with
  \<open>EFI_SUCCESS\<close> and a tree.
\<close>

theorem unclosed_element_is_accepted:
  "parse_document ''<ab>''
     = Some (Inr (EFI_SUCCESS,
          Some (DRIVER_XML_TAG XmlTag (Some ''Root'') (LIST_ANCHOR [] 0)
                 (LIST_ANCHOR [DRIVER_XML_TAG XmlTag (Some ''ab'') (LIST_ANCHOR [] 0) (LIST_ANCHOR [] 0)] 1))))
   \<and> parse_document ''<doc><item>one</item><item>two''
     = Some (Inr (EFI_SUCCESS,
          Some (DRIVER_XML_TAG XmlTag (Some ''Root'') (LIST_ANCHOR [] 0)
                 (LIST_ANCHOR
                   [DRIVER_XML_TAG XmlTag (Some ''doc'') (LIST_ANCHOR [] 0)
                     (LIST_ANCHOR
                       [DRIVER_XML_TAG XmlTag (Some ''item'') (LIST_ANCHOR [] 0)
                          (LIST_ANCHOR [DRIVER_XML_CHAR_DATA 3 ''one''] 1),
                        DRIVER_XML_TAG XmlTag (Some ''item'') (LIST_ANCHOR [] 0)
                          (LIST_ANCHOR [DRIVER_XML_CHAR_DATA 3 ''two''] 1)] 2)] 1))))"
  by (simp add: parse_defs extract_defs upt_conv_Cons)

section \<open>Scenario A\<close>

text \<open>
  C4.  Parsing the 22 bytes \<open><a x="1"><b>hi</b></a>\<close> succeeds with the tree \<open>Root\<close>,
  then the tag \<open>a\<close> with the one attribute \<open>x\<close> of value \<open>1\<close>, then the tag \<open>b\<close>,
  then the character data \<open>hi\<close>; and \<open>PrintData\<close> on the node \<open>a\<close> of that tree, into
  an output document that starts empty, succeeds and writes exactly those 22 bytes.
\<close>

theorem scenario_A_parses_and_prints:
  "parse_document ''<a x=\"1\"><b>hi</b></a>''
     = Some (Inr (EFI_SUCCESS,
          Some (DRIVER_XML_TAG XmlTag (Some ''Root'') (LIST_ANCHOR [] 0)
                 (LIST_ANCHOR
                   [DRIVER_XML_TAG XmlTag (Some ''a'')
                      (LIST_ANCHOR [DRIVER_XML_ATTRIBUTE (Some ''x'') (Some ''1'')] 1)
                      (LIST_ANCHOR
                         [DRIVER_XML_TAG XmlTag (Some ''b'') (LIST_ANCHOR [] 0)
                            (LIST_ANCHOR [DRIVER_XML_CHAR_DATA 2 ''hi''] 1)] 1)] 1))))
   \<and> fst (PrintData
        (DRIVER_XML_TAG XmlTag (Some ''a'')
           (LIST_ANCHOR [DRIVER_XML_ATTRIBUTE (Some ''x'') (Some ''1'')] 1)
           (LIST_ANCHOR
              [DRIVER_XML_TAG XmlTag (Some ''b'') (LIST_ANCHOR [] 0)
                 (LIST_ANCHOR [DRIVER_XML_CHAR_DATA 2 ''hi''] 1)] 1))
        fresh_writer) = EFI_SUCCESS
   \<and> document_text (snd (PrintData
        (DRIVER_XML_TAG XmlTag (Some ''a'')
           (LIST_ANCHOR [DRIVER_XML_ATTRIBUTE (Some ''x'') (Some ''1'')] 1)
           (LIST_ANCHOR
              [DRIVER_XML_TAG XmlTag (Some ''b'') (LIST_ANCHOR [] 0)
                 (LIST_ANCHOR [DRIVER_XML_CHAR_DATA 2 ''hi''] 1)] 1))
        fresh_writer)) = ''<a x=\"1\"><b>hi</b></a>''"
proof (intro conjI)
  show "parse_document ''<a x=\"1\"><b>hi</b></a>''
     = Some (Inr (EFI_SUCCESS,
          Some (DRIVER_XML_TAG XmlTag (Some ''Root'') (LIST_ANCHOR [] 0)
                 (LIST_ANCHOR
                   [DRIVER_XML_TAG XmlTag (Some ''a'')
                      (LIST_ANCHOR [DRIVER_XML_ATTRIBUTE (Some ''x'') (Some ''1'')] 1)
                      (LIST_ANCHOR
                         [DRIVER_XML_TAG XmlTag (Some ''b'') (LIST_ANCHOR [] 0)
                            (LIST_ANCHOR [DRIVER_XML_CHAR_DATA 2 ''hi''] 1)] 1)] 1))))"
    by (simp add: parse_defs extract_defs upt_conv_Cons)
qed (simp_all add: print_defs)

section \<open>Search by tag name\<close>

text \<open>
  C5.  The specification asks \<open>GetXmlTagByName\<close> for a depth-first search over all
  descendant tags that goes on across all siblings, and for \<open>EFI_NOT_FOUND\<close> only where no
  descendant matches.  The loop body of the function ends in \<open>return EFI_NOT_FOUND\<close>,
  so only the first entry of a list is ever looked at: a second sibling named \<open>b\<close> is
  not found; a child \<open>b\<close> of the first entry is stored in \<open>*OutputTag\<close> and the
  function still returns \<open>EFI_NOT_FOUND\<close>; and where the first entry is character data
  the variable \<open>Tag\<close> is read without having been assigned.
\<close>

theorem tag_search_looks_at_first_entry_only:
  "GetXmlTagByName ''b''
     (LIST_ANCHOR
        [DRIVER_XML_TAG XmlTag (Some ''a'') (LIST_ANCHOR [] 0) (LIST_ANCHOR [] 0),
         DRIVER_XML_TAG XmlTag (Some ''b'') (LIST_ANCHOR [] 0) (LIST_ANCHOR [] 0)] 2) None
     = Inr (EFI_NOT_FOUND, None)
   \<and> GetXmlTagByName ''b''
     (LIST_ANCHOR
        [DRIVER_XML_TAG XmlTag (Some ''a'') (LIST_ANCHOR [] 0)
           (LIST_ANCHOR [DRIVER_XML_TAG XmlTag (Some ''b'') (LIST_ANCHOR [] 0) (LIST_ANCHOR [] 0)] 1)] 1) None
     = Inr (EFI_NOT_FOUND, Some (DRIVER_XML_TAG XmlTag (Some ''b'') (LIST_ANCHOR [] 0) (LIST_ANCHOR [] 0)))
   \<and> GetXmlTagByName ''b''
     (LIST_ANCHOR
        [DRIVER_XML_CHAR_DATA 2 ''hi'',
         DRIVER_XML_TAG XmlTag (Some ''b'') (LIST_ANCHOR [] 0) (LIST_ANCHOR [] 0)] 2) None
     = Inl UninitializedRead"
  by (simp add: AsciiStrCmp_eq_def NUL_def)

section \<open>Attribute extraction\<close>

text \<open>
  C6.  The specification asks the attribute extractor to tolerate whitespace around the
  \<open>=\<close>.  \<open>AsciiExtractAttribute\<close> steps over whitespace after the \<open>=\<close> in a loop, but
  before it with a single \<open>if\<close>: with two spaces between the name and the \<open>=\<close> the
  second space stands where the \<open>=\<close> is required and the attribute is rejected with
  \<open>EFI_INVALID_PARAMETER\<close>.  One space before, and several after, are accepted.
\<close>

theorem attribute_with_two_spaces_before_equals_is_rejected:
  "AsciiExtractAttribute ''x  =\"1\">'' = (EFI_INVALID_PARAMETER, ''x  =\"1\">'', None, None)
   \<and> AsciiExtractAttribute ''x =\"1\">'' = (EFI_SUCCESS, ''>'', Some ''x'', Some ''1'')
   \<and> AsciiExtractAttribute ''x=  \"1\">'' = (EFI_SUCCESS, ''>'', Some ''x'', Some ''1'')"
  by (simp add: AsciiExtractAttribute_def extract_defs upt_conv_Cons)

section \<open>Deletion\<close>

text \<open>
  C9.  The specification asks the deletion of a tag to free its attributes, then its
  children, then the node, to take the parent's count down by one and to leave the
  siblings in order.  \<open>DriverXmlDeleteElement\<close> on a tag starts with
  \<open>DeleteAttributeList\<close>, whose loop condition passes the local \<open>ChildData\<close> to
  \<open>GetNextXmlElement\<close> before anything is assigned to it (\<open>DeleteElementList\<close>, the
  same loop over the children, sets it to the list head first), so the deletion of a tag
  has no defined result.  A character-data node, which has no lists, is deleted as the
  claim says; and the loop of \<open>DeleteElementList\<close> goes on from the entry it has just
  freed.
\<close>

theorem delete_tag_reads_unassigned_pointer:
  "DriverXmlDeleteElement
     (LIST_ANCHOR
        [DRIVER_XML_TAG XmlTag (Some ''a'')
           (LIST_ANCHOR [DRIVER_XML_ATTRIBUTE (Some ''x'') (Some ''1'')] 1) (LIST_ANCHOR [] 0),
         DRIVER_XML_TAG XmlTag (Some ''b'') (LIST_ANCHOR [] 0) (LIST_ANCHOR [] 0)] 2) 0
     = Inl UninitializedRead
   \<and> DriverXmlDeleteElement
     (LIST_ANCHOR
        [DRIVER_XML_CHAR_DATA 2 ''hi'',
         DRIVER_XML_TAG XmlTag (Some ''b'') (LIST_ANCHOR [] 0) (LIST_ANCHOR [] 0)] 2) 0
     = Inr (EFI_SUCCESS,
            LIST_ANCHOR [DRIVER_XML_TAG XmlTag (Some ''b'') (LIST_ANCHOR [] 0) (LIST_ANCHOR [] 0)] 1)
   \<and> DeleteElementList (LIST_ANCHOR [DRIVER_XML_CHAR_DATA 2 ''hi'', DRIVER_XML_CHAR_DATA 2 ''yo''] 2)
     = Inl UseAfterFree"
  by (simp add: DeleteAttributeList_def GetNextXmlElement_def DriverXmlDeleteEmptyTag_def
      UINTN_dec_def UINTN_MAX_def)

section \<open>Reading the output document back\<close>

text \<open>
  What \<open>CopyMem\<close> has stored is read back, bytes below the destination are as they
  were, and a write at the cursor appends to the text of the document.  A string without
  NUL and of at most 127 characters is copied whole by \<open>StringToDocument\<close>: into the
  empty document of the test application after the buffer of 512 bytes has been
  allocated, and behind the cursor of a document that has room for it.
\<close>

lemma read_bytes_CopyMem: "read_bytes (CopyMem mem p src n) p n = map src [0..<n]"
  by (auto intro!: nth_equalityI simp: read_bytes_def CopyMem_def)

lemma read_bytes_below_CopyMem: "b + k \<le> p \<Longrightarrow> read_bytes (CopyMem mem p src n) b k = read_bytes mem b k"
  unfolding read_bytes_def CopyMem_def by (rule map_cong [OF refl]) simp

lemma read_bytes_add: "read_bytes mem b (k + n) = read_bytes mem b k @ read_bytes mem (b + k) n"
proof -
  have "[b ..< (b + k) + n] = [b ..< b + k] @ [b + k ..< (b + k) + n]"
    by (rule upt_add_eq_append) simp
  then show ?thesis
    unfolding read_bytes_def by (simp only: map_append add.assoc)
qed

lemma document_text_CopyMem:
  assumes "XmlDocument d \<le> OperationPtr d"
  shows "document_text (h\<lparr>Memory := CopyMem (Memory h) (OperationPtr d) src n\<rparr>,
                        d\<lparr>OperationPtr := OperationPtr d + n\<rparr>)
           = document_text (h, d) @ map src [0..<n]"
proof -
  define k where "k = OperationPtr d - XmlDocument d"
  with assms have p: "OperationPtr d = XmlDocument d + k" by simp
  have "read_bytes (CopyMem (Memory h) (XmlDocument d + k) src n) (XmlDocument d) (k + n)
          = read_bytes (Memory h) (XmlDocument d) k @ map src [0..<n]"
    by (simp add: read_bytes_add read_bytes_CopyMem read_bytes_below_CopyMem)
  then show ?thesis
    by (simp add: document_text_def p add.commute)
qed

lemma map_heap_string: "n \<le> length s \<Longrightarrow> map (heap_string s) [0..<n] = take n s"
  by (auto intro!: nth_equalityI simp: heap_string_def)

lemma percent_a_no_NUL: "NUL \<notin> set (percent_a s)"
proof (cases s)
  case None
  then show ?thesis by (simp add: percent_a_def NUL_def)
next
  case (Some x)
  have "NUL \<notin> set (takeWhile (\<lambda>c. c \<noteq> NUL) x)"
    using set_takeWhileD [of NUL "\<lambda>c. c \<noteq> NUL" x] by blast
  with Some show ?thesis by (simp add: percent_a_def)
qed

lemma AsciiStrnLenS_piece:
  "NUL \<notin> set s \<Longrightarrow> length s \<le> 127 \<Longrightarrow> AsciiStrnLenS s MAX_TEMP_BUFFER_SIZE = length s"
proof -
  assume "NUL \<notin> set s" and len: "length s \<le> 127"
  then have "takeWhile (\<lambda>c. c \<noteq> NUL) s = s"
    by (auto simp: takeWhile_eq_all_conv)
  with len show ?thesis
    unfolding AsciiStrnLenS_def AsciiStrLen_def MAX_TEMP_BUFFER_SIZE_def
    by (simp del: takeWhile_eq_all_conv)
qed

lemma fresh_writer_grows:
  "0 < NewSize \<Longrightarrow>
     snd (snd (ReallocateXmlDocument fresh_writer NewSize))
       = \<lparr>XmlDocument = 12288, DocumentSize = NewSize, OperationPtr = 12288\<rparr>"
  by (simp add: ReallocateXmlDocument_def AllocateZeroPool_def ReallocatePool_def fresh_writer_def
      UINTN_sub_def UINTN_MAX_def Let_def)

lemma StringToDocument_first:
  assumes nul: "NUL \<notin> set s" and len: "length s \<le> 127" and ne: "s \<noteq> []"
  shows "snd (snd (StringToDocument s fresh_writer))
           = \<lparr>XmlDocument = 12288, DocumentSize = 512, OperationPtr = 12288 + length s\<rparr>
       \<and> document_text (snd (StringToDocument s fresh_writer)) = s"
proof -
  have n: "AsciiStrnLenS s MAX_TEMP_BUFFER_SIZE = length s"
    using nul len by (rule AsciiStrnLenS_piece)
  have free: "UINTN_sub (XmlDocument (snd fresh_writer) + DocumentSize (snd fresh_writer))
                (OperationPtr (snd fresh_writer)) = 0"
    by (simp add: fresh_writer_def UINTN_sub_def)
  have g: "snd (snd (ReallocateXmlDocument fresh_writer
                       (UINTN_add (DocumentSize (snd fresh_writer)) 512)))
             = \<lparr>XmlDocument = 12288, DocumentSize = 512, OperationPtr = 12288\<rparr>"
    using fresh_writer_grows [of 512] by (simp add: fresh_writer_def UINTN_add_def UINTN_MAX_def)
  obtain h d where w: "fresh_writer = (h, d)" by (cases fresh_writer)
  from ne len n free g w show ?thesis
    by (simp add: StringToDocument_def Let_def split_beta OUTPUT_DOCUMENT_ALLOCATE_STEP_def
        document_text_def read_bytes_CopyMem map_heap_string)
qed

lemma StringToDocument_next:
  assumes nul: "NUL \<notin> set s" and len: "length s \<le> 127"
    and ok: "document_ok d" and room: "length s \<le> free_size d"
  shows "snd (snd (StringToDocument s (h, d))) = d\<lparr>OperationPtr := OperationPtr d + length s\<rparr>
       \<and> document_text (snd (StringToDocument s (h, d))) = document_text (h, d) @ s"
proof -
  have n: "AsciiStrnLenS s MAX_TEMP_BUFFER_SIZE = length s"
    using nul len by (rule AsciiStrnLenS_piece)
  from ok have le: "XmlDocument d \<le> OperationPtr d" by (simp add: document_ok_def)
  from n room show ?thesis
    by (simp add: StringToDocument_def Let_def free_size_def document_text_CopyMem [OF le]
        map_heap_string)
qed

section \<open>Growth of the output document\<close>

lemma full_writer_documents:
  "snd (snd (PrintCharData (DRIVER_XML_CHAR_DATA 511 (replicate 511 (CHR ''a''))) full_writer))
     = \<lparr>XmlDocument = 12288, DocumentSize = 1024, OperationPtr = 13311\<rparr>
   \<and> snd (snd (PrintCharData (DRIVER_XML_CHAR_DATA 512 (replicate 512 (CHR ''a''))) full_writer))
     = \<lparr>XmlDocument = 12288, DocumentSize = 1024, OperationPtr = 13312\<rparr>
   \<and> snd (snd (PrintCharData (DRIVER_XML_CHAR_DATA 513 (replicate 513 (CHR ''a''))) full_writer))
     = \<lparr>XmlDocument = 12288, DocumentSize = 1026, OperationPtr = 13313\<rparr>
   \<and> free_size \<lparr>XmlDocument = 12288, DocumentSize = 1024, OperationPtr = 13311\<rparr> = 1
   \<and> free_size \<lparr>XmlDocument = 12288, DocumentSize = 1024, OperationPtr = 13312\<rparr> = 0
   \<and> free_size \<lparr>XmlDocument = 12288, DocumentSize = 1026, OperationPtr = 13313\<rparr> = 1
   \<and> DocumentSize (snd full_writer) + growth_as_specified 511 = 1024
   \<and> DocumentSize (snd full_writer) + growth_as_specified 512 = 1025
   \<and> DocumentSize (snd full_writer) + growth_as_specified 513 = 1026
   \<and> snd (snd (PrintCharData (DRIVER_XML_CHAR_DATA 512 (replicate 512 (CHR ''a''))) fresh_writer))
     = \<lparr>XmlDocument = 12288, DocumentSize = 512, OperationPtr = 12800\<rparr>"
  by (simp add: print_defs full_writer_def free_size_def growth_as_specified_def)

lemma full_writer_text:
  "Pool (fst (snd (PrintCharData (DRIVER_XML_CHAR_DATA 512 (replicate 512 (CHR ''a''))) full_writer)))
     = [16384]
   \<and> document_text (snd (PrintCharData (DRIVER_XML_CHAR_DATA 512 (replicate 512 (CHR ''a'')))
                           full_writer))
     = replicate 512 (CHR ''x'') @ replicate 512 (CHR ''a'')"
proof -
  define m1 where "m1 = CopyMem (load 8192 (replicate 512 (CHR ''x'')) zeroed) 12288 (\<lambda>i. NUL) 1024"
  define m2 where "m2 = CopyMem m1 12288 (at_address m1 8192) 512"
  have run: "snd (PrintCharData (DRIVER_XML_CHAR_DATA 512 (replicate 512 (CHR ''a''))) full_writer)
      = (\<lparr>Memory = CopyMem m2 12800 (heap_string (replicate 512 (CHR ''a''))) 512, Pool = [16384]\<rparr>,
         \<lparr>XmlDocument = 12288, DocumentSize = 1024, OperationPtr = 13312\<rparr>)"
    by (simp add: PrintCharData_def ReallocateXmlDocument_def ReallocatePool_def AllocateZeroPool_def
        OUTPUT_DOCUMENT_ALLOCATE_STEP_def UINTN_sub_def UINTN_add_def UINTN_MAX_def full_writer_def
        Let_def m1_def m2_def)
  have old: "read_bytes m2 12288 512 = replicate 512 (CHR ''x'')"
    unfolding m2_def read_bytes_CopyMem
    by (rule nth_equalityI) (simp_all add: at_address_def m1_def CopyMem_def load_def)
  have new: "map (heap_string (replicate 512 (CHR ''a''))) [0..<512] = replicate 512 (CHR ''a'')"
    by (simp add: map_heap_string)
  have "read_bytes (CopyMem m2 12800 (heap_string (replicate 512 (CHR ''a''))) 512) 12288 (512 + 512)
          = replicate 512 (CHR ''x'') @ replicate 512 (CHR ''a'')"
    unfolding read_bytes_add
    using read_bytes_CopyMem [of m2 12800 "heap_string (replicate 512 (CHR ''a''))" 512]
    by (simp add: read_bytes_below_CopyMem old new)
  then show ?thesis
    by (simp add: run document_text_def)
qed

text \<open>
  C8.  The specification has the buffer grow by the fixed increment of 512 bytes when the
  pending write is smaller than the increment and by the pending size plus one otherwise,
  and so has the comment that stands above the test in \<open>StringToDocument\<close> and in
  \<open>PrintCharData\<close> (\<open>If the string is smaller than the defined reallocation size,
  over-provision\<close> ... \<open>Otherwise, grow the buffer large enough to handle the very long
  string\<close>).  The test is \<open>> OUTPUT_DOCUMENT_ALLOCATE_STEP\<close>, so a pending write of
  exactly 512 bytes, which is not smaller than the increment, takes the branch of the
  smaller writes.  Into the full document of 512 bytes \<open>PrintCharData\<close> writes 511
  bytes after growing the buffer to 1024 bytes and 513 bytes after growing it to 1026,
  and either write leaves one spare byte; it writes 512 bytes after growing the buffer to
  1024 bytes, not to 1025, and leaves none.  Into the empty document of the test
  application 512 bytes grow the buffer to 512 bytes.  The rest of the sentence holds in
  these runs: the reallocation takes the block at 12288 from the pool, carries the 512
  bytes of the old buffer over, and puts the cursor at the offset from the new base that
  it had from the old one; the new bytes follow.
\<close>

theorem write_of_exactly_the_increment_leaves_no_spare_byte:
  "snd (snd (PrintCharData (DRIVER_XML_CHAR_DATA 511 (replicate 511 (CHR ''a''))) full_writer))
     = \<lparr>XmlDocument = 12288, DocumentSize = 1024, OperationPtr = 13311\<rparr>
   \<and> snd (snd (PrintCharData (DRIVER_XML_CHAR_DATA 512 (replicate 512 (CHR ''a''))) full_writer))
     = \<lparr>XmlDocument = 12288, DocumentSize = 1024, OperationPtr = 13312\<rparr>
   \<and> snd (snd (PrintCharData (DRIVER_XML_CHAR_DATA 513 (replicate 513 (CHR ''a''))) full_writer))
     = \<lparr>XmlDocument = 12288, DocumentSize = 1026, OperationPtr = 13313\<rparr>
   \<and> free_size \<lparr>XmlDocument = 12288, DocumentSize = 1024, OperationPtr = 13311\<rparr> = 1
   \<and> free_size \<lparr>XmlDocument = 12288, DocumentSize = 1024, OperationPtr = 13312\<rparr> = 0
   \<and> free_size \<lparr>XmlDocument = 12288, DocumentSize = 1026, OperationPtr = 13313\<rparr> = 1
   \<and> DocumentSize (snd full_writer) + growth_as_specified 511 = 1024
   \<and> DocumentSize (snd full_writer) + growth_as_specified 512 = 1025
   \<and> DocumentSize (snd full_writer) + growth_as_specified 513 = 1026
   \<and> snd (snd (PrintCharData (DRIVER_XML_CHAR_DATA 512 (replicate 512 (CHR ''a''))) fresh_writer))
     = \<lparr>XmlDocument = 12288, DocumentSize = 512, OperationPtr = 12800\<rparr>
   \<and> Pool (fst (snd (PrintCharData (DRIVER_XML_CHAR_DATA 512 (replicate 512 (CHR ''a''))) full_writer)))
     = [16384]
   \<and> document_text (snd (PrintCharData (DRIVER_XML_CHAR_DATA 512 (replicate 512 (CHR ''a'')))
                           full_writer))
     = replicate 512 (CHR ''x'') @ replicate 512 (CHR ''a'')"
  using full_writer_documents full_writer_text
  by blast

section \<open>The temporary buffer of the printers\<close>

text \<open>
  A write that fits moves the cursor on and appends to the text; the pieces hold no NUL,
  because \<open>%a\<close> stops at the NUL of its argument, and have at most 127 characters; and
  the printers, written with the pieces.
\<close>

lemma UINTN_sub_plain: "b \<le> a \<Longrightarrow> a < 2 ^ 64 \<Longrightarrow> UINTN_sub a b = a - b"
  by (simp add: UINTN_sub_def UINTN_MAX_def nat_diff_distrib' zmod_int flip: of_nat_diff)

lemma free_size_plain:
  "document_ok d \<Longrightarrow> free_size d = XmlDocument d + DocumentSize d - OperationPtr d"
  unfolding free_size_def document_ok_def
  by (rule UINTN_sub_plain) auto

lemma emits_nothing: "emits [] w w"
  by (simp add: emits_def)

lemma emits_append: "emits s w w1 \<Longrightarrow> emits t w1 w2 \<Longrightarrow> emits (s @ t) w w2"
  by (simp add: emits_def add.assoc)

lemma has_room_first: "has_room (length (s @ t)) w \<Longrightarrow> has_room (length s) w"
  by (simp add: has_room_def)

lemma has_room_rest:
  assumes "emits s w w1" and "has_room (length (s @ t)) w"
  shows "has_room (length t) w1"
proof -
  define d where "d = snd w"
  define d1 where "d1 = d\<lparr>OperationPtr := OperationPtr d + length s\<rparr>"
  from assms(2) have ok: "document_ok d" and room: "length s + length t \<le> free_size d"
    by (simp_all add: has_room_def d_def)
  from assms(1) have w1: "snd w1 = d1"
    by (simp add: emits_def d_def d1_def)
  from ok have "OperationPtr d \<le> XmlDocument d + DocumentSize d"
    by (simp add: document_ok_def)
  with room have fits: "OperationPtr d + length s + length t \<le> XmlDocument d + DocumentSize d"
    by (simp add: free_size_plain [OF ok])
  with ok have ok1: "document_ok d1"
    by (simp add: d1_def document_ok_def)
  from fits have "length t \<le> free_size d1"
    by (simp add: free_size_plain [OF ok1]) (simp add: d1_def)
  with ok1 show ?thesis
    by (simp add: has_room_def w1)
qed

lemma StringToDocument_emits:
  assumes "NUL \<notin> set s" and "length s \<le> 127" and "has_room (length s) w"
  shows "emits s w (snd (StringToDocument s w))"
proof -
  obtain h d where w: "w = (h, d)" by (cases w)
  from assms(3) have "document_ok d" and "length s \<le> free_size d"
    by (simp_all add: has_room_def w)
  from StringToDocument_next [OF assms(1) assms(2) this, of h] show ?thesis
    by (simp add: emits_def w)
qed

lemma PrintCharData_emits:
  assumes "has_room DataSize w"
  shows "emits (heap_bytes CharData 0 DataSize) w
           (snd (PrintCharData (DRIVER_XML_CHAR_DATA DataSize CharData) w))"
proof -
  obtain h d where w: "w = (h, d)" by (cases w)
  from assms have ok: "document_ok d" and room: "DataSize \<le> free_size d"
    by (simp_all add: has_room_def w)
  from ok have le: "XmlDocument d \<le> OperationPtr d" by (simp add: document_ok_def)
  from room show ?thesis
    by (simp add: PrintCharData_def Let_def free_size_def emits_def w heap_bytes_def
        document_text_CopyMem [OF le])
qed

lemma pieces_have_no_NUL:
  "NUL \<notin> set (opener_piece Name)" "NUL \<notin> set (closer_piece Name)"
  "NUL \<notin> set (empty_closer_piece Name)" "NUL \<notin> set (attribute_piece AttributeName AttributeData)"
  "NUL \<notin> set (pi_piece PiTargetName PiTargetData)"
  using percent_a_no_NUL
  by (auto simp: opener_piece_def closer_piece_def empty_closer_piece_def attribute_piece_def
      pi_piece_def NUL_def dest!: in_set_takeD)

lemma pieces_are_short:
  "length (opener_piece Name) \<le> 127" "length (closer_piece Name) \<le> 127"
  "length (empty_closer_piece Name) \<le> 127"
  "length (attribute_piece AttributeName AttributeData) \<le> 127"
  "length (pi_piece PiTargetName PiTargetData) \<le> 127"
  by (simp_all add: opener_piece_def closer_piece_def empty_closer_piece_def attribute_piece_def
      pi_piece_def)

lemma pieces_are_not_empty:
  "opener_piece Name \<noteq> []" "attribute_piece AttributeName AttributeData \<noteq> []"
  "pi_piece PiTargetName PiTargetData \<noteq> []"
  by (simp_all add: opener_piece_def attribute_piece_def pi_piece_def)

lemma AsciiSPrint_pieces:
  "AsciiSPrint [] (MAX_TEMP_BUFFER_SIZE - 0) (''<'' @ percent_a Name) = opener_piece Name"
  "AsciiSPrint (opener_piece Name) (MAX_TEMP_BUFFER_SIZE - length (opener_piece Name))
     (''</'' @ percent_a Name @ ''>'') = closer_piece Name"
  "AsciiSPrint (opener_piece Name) (MAX_TEMP_BUFFER_SIZE - length (opener_piece Name)) ''/>''
     = empty_closer_piece Name"
  "AsciiSPrint [] (MAX_TEMP_BUFFER_SIZE - 0)
     ('' '' @ percent_a AttributeName @ [CHR ''='', CHR 0x22]
        @ percent_a (if AttributeData = None then Some [] else AttributeData) @ [CHR 0x22])
     = attribute_piece AttributeName AttributeData"
  "AsciiSPrint [] (MAX_TEMP_BUFFER_SIZE - 0)
     (''<?'' @ percent_a PiTargetName @ '' '' @ percent_a PiTargetData @ ''?>'')
     = pi_piece PiTargetName PiTargetData"
  using pieces_are_short(1) [of Name]
  by (simp_all add: AsciiSPrint_def MAX_TEMP_BUFFER_SIZE_def closer_piece_def
      empty_closer_piece_def attribute_piece_def pi_piece_def opener_piece_def)

lemma PrintData_attribute:
  "PrintData (DRIVER_XML_ATTRIBUTE AttributeName AttributeData) w
     = (EFI_SUCCESS, snd (StringToDocument (attribute_piece AttributeName AttributeData) w))"
  using AsciiSPrint_pieces(4) [of AttributeName AttributeData]
  by (simp add: PrintAttribute_def Let_def)

lemma PrintData_pi:
  "PrintData (DRIVER_XML_PROCESSING_INSTRUCTION PiTargetName PiTargetData) w
     = (EFI_SUCCESS, snd (StringToDocument (pi_piece PiTargetName PiTargetData) w))"
  using AsciiSPrint_pieces(5) [of PiTargetName PiTargetData]
  by (simp add: PrintAttribute_def PrintPi_def Let_def)

lemma PrintData_char_data:
  "PrintData (DRIVER_XML_CHAR_DATA DataSize CharData) w
     = (EFI_SUCCESS, snd (PrintCharData (DRIVER_XML_CHAR_DATA DataSize CharData) w))"
  by (simp add: PrintAttribute_def PrintPi_def PrintCharData_def Let_def split_beta)

lemma PrintData_tag:
  "PrintData (DRIVER_XML_TAG XmlTag Name (LIST_ANCHOR attributes an) (LIST_ANCHOR children cn)) w
     = (EFI_SUCCESS,
        snd (StringToDocument (closer_piece Name)
          ((if cn > 0 then PrintWalkBranch_loop children else id)
             (snd (StringToDocument ''>''
                ((if an > 0 then PrintWalkBranch_loop attributes else id)
                   (snd (StringToDocument (opener_piece Name) w))))))))"
  using AsciiSPrint_pieces(1,2) [of Name]
  by (simp add: PrintAttribute_def Let_def)

lemma PrintData_empty_tag:
  "PrintData (DRIVER_XML_TAG XmlEmptyTag Name (LIST_ANCHOR attributes an) (LIST_ANCHOR children cn)) w
     = (EFI_SUCCESS,
        snd (StringToDocument (empty_closer_piece Name)
          ((if an > 0 then PrintEmptyTag_loop attributes else id)
             (snd (StringToDocument (opener_piece Name) w)))))"
  using AsciiSPrint_pieces(1,3) [of Name]
  by (simp add: PrintAttribute_def Let_def)

lemma PrintWalkBranch_loop_emits:
  assumes "\<And>x v. x \<in> set entries \<Longrightarrow> has_room (length (rendered x)) v
             \<Longrightarrow> emits (rendered x) v (snd (PrintData x v))"
    and "has_room (length (concat (map rendered entries))) w"
  shows "emits (concat (map rendered entries)) w (PrintWalkBranch_loop entries w)"
  using assms
proof (induction entries arbitrary: w)
  case Nil
  show ?case by (simp add: emits_nothing)
next
  case (Cons x entries)
  from Cons.prems(2) have room: "has_room (length (rendered x @ concat (map rendered entries))) w"
    by simp
  have first: "emits (rendered x) w (snd (PrintData x w))"
    using has_room_first [OF room] by (intro Cons.prems(1)) simp_all
  have "emits (concat (map rendered entries)) (snd (PrintData x w))
          (PrintWalkBranch_loop entries (snd (PrintData x w)))"
    using Cons.prems(1) has_room_rest [OF first room] by (intro Cons.IH) simp_all
  with first show ?case
    by (simp add: emits_append del: PrintData.simps)
qed

lemma PrintEmptyTag_loop_emits:
  assumes "\<And>x v. x \<in> set entries \<Longrightarrow> XmlDataType x = XmlAttribute
             \<Longrightarrow> has_room (length (rendered x)) v
             \<Longrightarrow> emits (rendered x) v (snd (PrintData x v))"
    and "has_room (length (concat (map rendered
                                     (filter (\<lambda>a. XmlDataType a = XmlAttribute) entries)))) w"
  shows "emits (concat (map rendered (filter (\<lambda>a. XmlDataType a = XmlAttribute) entries))) w
           (PrintEmptyTag_loop entries w)"
  using assms
proof (induction entries arbitrary: w)
  case Nil
  show ?case by (simp add: emits_nothing)
next
  case (Cons x entries)
  show ?case
  proof (cases "XmlDataType x = XmlAttribute")
    case False
    with Cons.prems have "emits (concat (map rendered (filter (\<lambda>a. XmlDataType a = XmlAttribute) entries)))
            w (PrintEmptyTag_loop entries w)"
      by (intro Cons.IH) simp_all
    with False show ?thesis by simp
  next
    case True
    with Cons.prems(2) have room:
      "has_room (length (rendered x
         @ concat (map rendered (filter (\<lambda>a. XmlDataType a = XmlAttribute) entries)))) w"
      by simp
    have first: "emits (rendered x) w (snd (PrintData x w))"
      using has_room_first [OF room] True by (intro Cons.prems(1)) simp_all
    have "emits (concat (map rendered (filter (\<lambda>a. XmlDataType a = XmlAttribute) entries)))
            (snd (PrintData x w)) (PrintEmptyTag_loop entries (snd (PrintData x w)))"
      using Cons.prems(1) has_room_rest [OF first room] by (intro Cons.IH) simp_all
    with first True show ?thesis
      by (simp add: emits_append del: PrintData.simps)
  qed
qed

lemma tag_rest_emits:
  assumes entries: "\<And>x v. x \<in> set attributes \<Longrightarrow> 0 < an \<Longrightarrow> has_room (length (rendered x)) v
                      \<Longrightarrow> emits (rendered x) v (snd (PrintData x v))"
                   "\<And>x v. x \<in> set children \<Longrightarrow> 0 < cn \<Longrightarrow> has_room (length (rendered x)) v
                      \<Longrightarrow> emits (rendered x) v (snd (PrintData x v))"
    and room: "has_room (length ((if an > 0 then concat (map rendered attributes) else [])
                                  @ ''>''
                                  @ (if cn > 0 then concat (map rendered children) else [])
                                  @ closer_piece Name)) w"
  shows "emits ((if an > 0 then concat (map rendered attributes) else [])
                  @ ''>''
                  @ (if cn > 0 then concat (map rendered children) else [])
                  @ closer_piece Name) w
           (snd (StringToDocument (closer_piece Name)
              ((if cn > 0 then PrintWalkBranch_loop children else id)
                 (snd (StringToDocument ''>''
                    ((if an > 0 then PrintWalkBranch_loop attributes else id) w))))))"
proof -
  define A where "A = (if an > 0 then concat (map rendered attributes) else [])"
  define C where "C = (if cn > 0 then concat (map rendered children) else [])"
  define w2 where "w2 = (if an > 0 then PrintWalkBranch_loop attributes else id) w"
  define w3 where "w3 = snd (StringToDocument ''>'' w2)"
  define w4 where "w4 = (if cn > 0 then PrintWalkBranch_loop children else id) w3"
  define w5 where "w5 = snd (StringToDocument (closer_piece Name) w4)"
  from room have r1: "has_room (length (A @ ''>'' @ C @ closer_piece Name)) w"
    by (simp add: A_def C_def)
  have e2: "emits A w w2"
  proof (cases "an > 0")
    case True
    with has_room_first [OF r1] entries(1) show ?thesis
      unfolding A_def w2_def by (simp del: PrintData.simps) (rule PrintWalkBranch_loop_emits)
  next
    case False
    then show ?thesis by (simp add: A_def w2_def emits_nothing)
  qed
  note r2 = has_room_rest [OF e2 r1]
  have gt: "NUL \<notin> set ''>''" "length ''>'' \<le> 127"
    by (simp_all add: NUL_def)
  have e3: "emits ''>'' w2 w3"
    unfolding w3_def using gt has_room_first [OF r2] by (rule StringToDocument_emits)
  note r3 = has_room_rest [OF e3 r2]
  have e4: "emits C w3 w4"
  proof (cases "cn > 0")
    case True
    with has_room_first [OF r3] entries(2) show ?thesis
      unfolding C_def w4_def by (simp del: PrintData.simps) (rule PrintWalkBranch_loop_emits)
  next
    case False
    then show ?thesis by (simp add: C_def w4_def emits_nothing)
  qed
  from has_room_rest [OF e4 r3] have r4: "has_room (length (closer_piece Name)) w4"
    by simp
  have e5: "emits (closer_piece Name) w4 w5"
    unfolding w5_def using pieces_have_no_NUL(2) pieces_are_short(2) r4
    by (rule StringToDocument_emits)
  from emits_append [OF e2 emits_append [OF e3 emits_append [OF e4 e5]]]
  show ?thesis
    unfolding A_def C_def w2_def w3_def w4_def w5_def .
qed

lemma empty_tag_rest_emits:
  assumes entries: "\<And>x v. x \<in> set attributes \<Longrightarrow> 0 < an \<Longrightarrow> XmlDataType x = XmlAttribute
                      \<Longrightarrow> has_room (length (rendered x)) v
                      \<Longrightarrow> emits (rendered x) v (snd (PrintData x v))"
    and room: "has_room (length ((if an > 0
                   then concat (map rendered (filter (\<lambda>a. XmlDataType a = XmlAttribute) attributes))
                   else [])
                  @ empty_closer_piece Name)) w"
  shows "emits ((if an > 0
                 then concat (map rendered (filter (\<lambda>a. XmlDataType a = XmlAttribute) attributes))
                 else [])
                @ empty_closer_piece Name) w
           (snd (StringToDocument (empty_closer_piece Name)
              ((if an > 0 then PrintEmptyTag_loop attributes else id) w)))"
proof -
  define A where
    "A = (if an > 0
          then concat (map rendered (filter (\<lambda>a. XmlDataType a = XmlAttribute) attributes))
          else [])"
  define w2 where "w2 = (if an > 0 then PrintEmptyTag_loop attributes else id) w"
  define w3 where "w3 = snd (StringToDocument (empty_closer_piece Name) w2)"
  from room have r1: "has_room (length (A @ empty_closer_piece Name)) w"
    by (simp add: A_def)
  have e2: "emits A w w2"
  proof (cases "an > 0")
    case True
    with has_room_first [OF r1] entries show ?thesis
      unfolding A_def w2_def by (simp del: PrintData.simps) (rule PrintEmptyTag_loop_emits)
  next
    case False
    then show ?thesis by (simp add: A_def w2_def emits_nothing)
  qed
  note r2 = has_room_rest [OF e2 r1]
  have e3: "emits (empty_closer_piece Name) w2 w3"
    unfolding w3_def using pieces_have_no_NUL(3) pieces_are_short(3) r2
    by (rule StringToDocument_emits)
  from emits_append [OF e2 e3]
  show ?thesis
    unfolding A_def w2_def w3_def .
qed

lemma PrintData_emits:
  "anchors_walkable Data \<Longrightarrow> has_room (length (rendered Data)) w
     \<Longrightarrow> fst (PrintData Data w) = EFI_SUCCESS \<and> emits (rendered Data) w (snd (PrintData Data w))"
proof (induction Data arbitrary: w rule: rendered.induct)
  case (1 DataType Name attributes an children cn)
  from "1.prems"(1) have type: "DataType = XmlTag \<or> DataType = XmlEmptyTag"
    and wa: "\<And>x. x \<in> set attributes \<Longrightarrow> anchors_walkable x"
    and wc: "\<And>x. x \<in> set children \<Longrightarrow> anchors_walkable x"
    by (simp_all add: list_all_iff)
  define w1 where "w1 = snd (StringToDocument (opener_piece Name) w)"
  show ?case
  proof (cases "DataType = XmlTag")
    case True
    define rest where
      "rest = (if an > 0 then concat (map rendered attributes) else []) @ ''>''
              @ (if cn > 0 then concat (map rendered children) else []) @ closer_piece Name"
    from "1.prems"(2) True have r0: "has_room (length (opener_piece Name @ rest)) w"
      by (simp add: rest_def)
    have e1: "emits (opener_piece Name) w w1"
      unfolding w1_def
      using pieces_have_no_NUL(1) pieces_are_short(1) has_room_first [OF r0]
      by (rule StringToDocument_emits)
    note r1 = has_room_rest [OF e1 r0, unfolded rest_def]
    have ea: "emits (rendered x) v (snd (PrintData x v))"
      if "x \<in> set attributes" "0 < an" "has_room (length (rendered x)) v" for x v
      using "1.IH"(1) [OF True that(2) that(1) wa [OF that(1)] that(3)] by blast
    have ec: "emits (rendered x) v (snd (PrintData x v))"
      if "x \<in> set children" "0 < cn" "has_room (length (rendered x)) v" for x v
      using "1.IH"(2) [OF True that(2) that(1) wc [OF that(1)] that(3)] by blast
    from emits_append [OF e1 tag_rest_emits [OF ea ec r1]] True show ?thesis
      by (simp only: PrintData_tag rendered.simps w1_def fst_conv snd_conv if_True simp_thms)
  next
    case False
    with type have empty: "DataType = XmlEmptyTag" by simp
    define rest where
      "rest = (if an > 0
               then concat (map rendered (filter (\<lambda>a. XmlDataType a = XmlAttribute) attributes))
               else [])
              @ empty_closer_piece Name"
    from "1.prems"(2) False empty have r0: "has_room (length (opener_piece Name @ rest)) w"
      by (simp add: rest_def)
    have e1: "emits (opener_piece Name) w w1"
      unfolding w1_def
      using pieces_have_no_NUL(1) pieces_are_short(1) has_room_first [OF r0]
      by (rule StringToDocument_emits)
    note r1 = has_room_rest [OF e1 r0, unfolded rest_def]
    have ea: "emits (rendered x) v (snd (PrintData x v))"
      if "x \<in> set attributes" "0 < an" "XmlDataType x = XmlAttribute"
         "has_room (length (rendered x)) v" for x v
    proof -
      from that(1,3) have "x \<in> set (filter (\<lambda>a. XmlDataType a = XmlAttribute) attributes)"
        by simp
      from "1.IH"(3) [OF False empty that(2) this wa [OF that(1)] that(4)] show ?thesis
        by blast
    qed
    from emits_append [OF e1 empty_tag_rest_emits [OF ea r1]] False empty show ?thesis
      by (simp only: PrintData_empty_tag rendered.simps w1_def fst_conv snd_conv if_True if_False
          simp_thms XML_DATA_TYPE.distinct)
  qed
next
  case (2 AttributeName AttributeData)
  from StringToDocument_emits [OF pieces_have_no_NUL(4) pieces_are_short(4)] "2.prems"(2)
  show ?case
    by (simp add: PrintData_attribute del: PrintData.simps)
next
  case (3 DataSize CharData)
  from "3.prems"(2) have "has_room DataSize w"
    by (simp add: heap_bytes_def)
  from PrintCharData_emits [OF this] show ?case
    by (simp add: PrintData_char_data del: PrintData.simps)
next
  case (4 PiTargetName PiTargetData)
  from StringToDocument_emits [OF pieces_have_no_NUL(5) pieces_are_short(5)] "4.prems"(2)
  show ?case
    by (simp add: PrintData_pi del: PrintData.simps)
qed

lemma has_room_after_first:
  assumes "NUL \<notin> set s" and "length s \<le> 127" and "s \<noteq> []" and "length s + n \<le> 512"
  shows "has_room n (snd (StringToDocument s fresh_writer))"
proof -
  from StringToDocument_first [OF assms(1) assms(2) assms(3)]
  have d: "snd (snd (StringToDocument s fresh_writer))
             = \<lparr>XmlDocument = 12288, DocumentSize = 512, OperationPtr = 12288 + length s\<rparr>"
    by simp
  have ok: "document_ok \<lparr>XmlDocument = 12288, DocumentSize = 512, OperationPtr = 12288 + length s\<rparr>"
    using assms(2) by (simp add: document_ok_def)
  from assms(4) show ?thesis
    by (simp add: has_room_def d ok free_size_plain [OF ok])
qed

lemma PrintCharData_text:
  assumes "DataSize < 2 ^ 63"
  shows "document_text (snd (PrintData (DRIVER_XML_CHAR_DATA DataSize CharData) fresh_writer))
           = heap_bytes CharData 0 DataSize"
proof (cases "DataSize = 0")
  case True
  then show ?thesis
    by (simp add: PrintAttribute_def PrintPi_def PrintCharData_def Let_def fresh_writer_def
        UINTN_sub_def document_text_def read_bytes_def heap_bytes_def)
next
  case False
  have free: "UINTN_sub (XmlDocument (snd fresh_writer) + DocumentSize (snd fresh_writer))
                (OperationPtr (snd fresh_writer)) = 0"
    by (simp add: fresh_writer_def UINTN_sub_def)
  have size: "DocumentSize (snd fresh_writer) = 0"
    by (simp add: fresh_writer_def)
  from assms have more: "UINTN_add (UINTN_add 0 DataSize) 1 = Suc DataSize"
    by (simp add: UINTN_add_def UINTN_MAX_def)
  have step: "UINTN_add 0 OUTPUT_DOCUMENT_ALLOCATE_STEP = 512"
    by (simp add: UINTN_add_def UINTN_MAX_def OUTPUT_DOCUMENT_ALLOCATE_STEP_def)
  have g1: "snd (snd (ReallocateXmlDocument fresh_writer (Suc DataSize)))
             = \<lparr>XmlDocument = 12288, DocumentSize = Suc DataSize, OperationPtr = 12288\<rparr>"
    by (rule fresh_writer_grows) simp
  have g2: "snd (snd (ReallocateXmlDocument fresh_writer 512))
             = \<lparr>XmlDocument = 12288, DocumentSize = 512, OperationPtr = 12288\<rparr>"
    by (rule fresh_writer_grows) simp
  obtain h d where w: "fresh_writer = (h, d)" by (cases fresh_writer)
  from False free size more step g1 g2 w show ?thesis
    by (simp add: PrintAttribute_def PrintPi_def PrintCharData_def Let_def split_beta
        document_text_def read_bytes_CopyMem heap_bytes_def)
qed

lemma PrintData_fresh_writer:
  assumes walk: "anchors_walkable Data" and short: "length (rendered Data) \<le> 512"
  shows "document_text (snd (PrintData Data fresh_writer)) = rendered Data"
proof (cases Data)
  case (DRIVER_XML_TAG DataType Name A C)
  obtain attributes an where A: "A = LIST_ANCHOR attributes an" by (cases A)
  obtain children cn where C: "C = LIST_ANCHOR children cn" by (cases C)
  note tag = DRIVER_XML_TAG [unfolded A C]
  from walk have type: "DataType = XmlTag \<or> DataType = XmlEmptyTag"
    and wa: "\<And>x. x \<in> set attributes \<Longrightarrow> anchors_walkable x"
    and wc: "\<And>x. x \<in> set children \<Longrightarrow> anchors_walkable x"
    by (simp_all add: tag list_all_iff)
  define w1 where "w1 = snd (StringToDocument (opener_piece Name) fresh_writer)"
  note first = StringToDocument_first [OF pieces_have_no_NUL(1) pieces_are_short(1)
      pieces_are_not_empty(1), of Name, folded w1_def]
  have ea: "emits (rendered x) v (snd (PrintData x v))"
    if "x \<in> set attributes" "0 < an" "has_room (length (rendered x)) v" for x v
    using PrintData_emits [OF wa [OF that(1)] that(3)] by blast
  have ec: "emits (rendered x) v (snd (PrintData x v))"
    if "x \<in> set children" "0 < cn" "has_room (length (rendered x)) v" for x v
    using PrintData_emits [OF wc [OF that(1)] that(3)] by blast
  have ee: "emits (rendered x) v (snd (PrintData x v))"
    if "x \<in> set attributes" "0 < an" "XmlDataType x = XmlAttribute"
       "has_room (length (rendered x)) v" for x v
    using PrintData_emits [OF wa [OF that(1)] that(4)] by blast
  show ?thesis
  proof (cases "DataType = XmlTag")
    case True
    define rest where
      "rest = (if an > 0 then concat (map rendered attributes) else []) @ ''>''
              @ (if cn > 0 then concat (map rendered children) else []) @ closer_piece Name"
    from short True have "length (opener_piece Name) + length rest \<le> 512"
      by (simp add: tag rest_def)
    from has_room_after_first [OF pieces_have_no_NUL(1) pieces_are_short(1)
        pieces_are_not_empty(1) this]
    have r1: "has_room (length rest) w1"
      by (simp add: w1_def)
    from tag_rest_emits [OF ea ec r1 [unfolded rest_def]] first
    have "document_text
            (snd (StringToDocument (closer_piece Name)
               ((if cn > 0 then PrintWalkBranch_loop children else id)
                  (snd (StringToDocument ''>''
                     ((if an > 0 then PrintWalkBranch_loop attributes else id) w1))))))
          = opener_piece Name @ rest"
      by (simp only: emits_def rest_def)
    with True show ?thesis
      by (simp only: tag PrintData_tag rendered.simps w1_def rest_def snd_conv if_True simp_thms)
  next
    case False
    with type have empty: "DataType = XmlEmptyTag" by simp
    define rest where
      "rest = (if an > 0
               then concat (map rendered (filter (\<lambda>a. XmlDataType a = XmlAttribute) attributes))
               else [])
              @ empty_closer_piece Name"
    from short False empty have "length (opener_piece Name) + length rest \<le> 512"
      by (simp add: tag rest_def)
    from has_room_after_first [OF pieces_have_no_NUL(1) pieces_are_short(1)
        pieces_are_not_empty(1) this]
    have r1: "has_room (length rest) w1"
      by (simp add: w1_def)
    from empty_tag_rest_emits [OF ee r1 [unfolded rest_def]] first
    have "document_text
            (snd (StringToDocument (empty_closer_piece Name)
               ((if an > 0 then PrintEmptyTag_loop attributes else id) w1)))
          = opener_piece Name @ rest"
      by (simp only: emits_def rest_def)
    with False empty show ?thesis
      by (simp only: tag PrintData_empty_tag rendered.simps w1_def rest_def snd_conv if_True
          if_False XML_DATA_TYPE.distinct simp_thms)
  qed
next
  case (DRIVER_XML_ATTRIBUTE AttributeName AttributeData)
  from StringToDocument_first [OF pieces_have_no_NUL(4) pieces_are_short(4) pieces_are_not_empty(2)]
  show ?thesis
    by (simp add: DRIVER_XML_ATTRIBUTE PrintData_attribute del: PrintData.simps)
next
  case (DRIVER_XML_CHAR_DATA DataSize CharData)
  from short have "DataSize < 2 ^ 63"
    by (simp add: DRIVER_XML_CHAR_DATA heap_bytes_def)
  from PrintCharData_text [OF this] show ?thesis
    by (simp add: DRIVER_XML_CHAR_DATA del: PrintData.simps)
next
  case (DRIVER_XML_PROCESSING_INSTRUCTION PiTargetName PiTargetData)
  from StringToDocument_first [OF pieces_have_no_NUL(5) pieces_are_short(5) pieces_are_not_empty(3)]
  show ?thesis
    by (simp add: DRIVER_XML_PROCESSING_INSTRUCTION PrintData_pi del: PrintData.simps)
qed

lemma StringToDocument_last_written:
  "last_written (min (AsciiStrLen String) MAX_TEMP_BUFFER_SIZE) (snd (StringToDocument String w))
     = take (min (AsciiStrLen String) MAX_TEMP_BUFFER_SIZE) String"
proof -
  have "min (AsciiStrLen String) MAX_TEMP_BUFFER_SIZE \<le> length String"
    by (simp add: AsciiStrLen_def min.coboundedI1 length_takeWhile_le)
  then show ?thesis
    by (simp add: StringToDocument_def last_written_def AsciiStrnLenS_def Let_def split_beta
        read_bytes_CopyMem map_heap_string)
qed

lemma formatted_piece_last_written:
  assumes "NUL \<notin> set s" and "length s \<le> 127"
  shows "last_written (length s) (snd (StringToDocument s w)) = s"
proof -
  from assms have "min (AsciiStrLen s) MAX_TEMP_BUFFER_SIZE = length s"
    using AsciiStrnLenS_piece [of s] by (simp add: AsciiStrnLenS_def)
  with StringToDocument_last_written [of s w] show ?thesis
    by simp
qed

lemma PrintCharData_last_written:
  "last_written DataSize (snd (PrintData (DRIVER_XML_CHAR_DATA DataSize CharData) w))
     = heap_bytes CharData 0 DataSize"
  by (simp add: PrintAttribute_def PrintPi_def PrintCharData_def last_written_def Let_def split_beta
      read_bytes_CopyMem heap_bytes_def)

lemma PrintAttribute_last_written:
  "last_written (length (attribute_piece AttributeName AttributeData))
     (snd (PrintData (DRIVER_XML_ATTRIBUTE AttributeName AttributeData) w))
   = attribute_piece AttributeName AttributeData"
  using formatted_piece_last_written [OF pieces_have_no_NUL(4) pieces_are_short(4)]
  by (simp only: PrintData_attribute snd_conv)

lemma PrintPi_last_written:
  "last_written (length (pi_piece PiTargetName PiTargetData))
     (snd (PrintData (DRIVER_XML_PROCESSING_INSTRUCTION PiTargetName PiTargetData) w))
   = pi_piece PiTargetName PiTargetData"
  using formatted_piece_last_written [OF pieces_have_no_NUL(5) pieces_are_short(5)]
  by (simp only: PrintData_pi snd_conv)

lemma PrintTag_last_written:
  "last_written (length (closer_piece Name))
     (snd (PrintData (DRIVER_XML_TAG XmlTag Name AttributeList ChildList) w))
   = closer_piece Name"
proof -
  obtain attributes an where A: "AttributeList = LIST_ANCHOR attributes an" by (cases AttributeList)
  obtain children cn where C: "ChildList = LIST_ANCHOR children cn" by (cases ChildList)
  from formatted_piece_last_written [OF pieces_have_no_NUL(2) pieces_are_short(2)]
  show ?thesis
    by (simp only: A C PrintData_tag snd_conv)
qed

lemma PrintEmptyTag_last_written:
  "last_written (length (empty_closer_piece Name))
     (snd (PrintData (DRIVER_XML_TAG XmlEmptyTag Name AttributeList ChildList) w))
   = empty_closer_piece Name"
proof -
  obtain attributes an where A: "AttributeList = LIST_ANCHOR attributes an" by (cases AttributeList)
  obtain children cn where C: "ChildList = LIST_ANCHOR children cn" by (cases ChildList)
  from formatted_piece_last_written [OF pieces_have_no_NUL(3) pieces_are_short(3)]
  show ?thesis
    by (simp only: A C PrintData_empty_tag snd_conv)
qed

lemma PrintData_with_room:
  assumes "anchors_walkable Data" and "document_ok OutputDocument"
    and "length (rendered Data) \<le> free_size OutputDocument"
  shows "fst (PrintData Data (h, OutputDocument)) = EFI_SUCCESS
       \<and> snd (snd (PrintData Data (h, OutputDocument)))
           = OutputDocument\<lparr>OperationPtr := OperationPtr OutputDocument + length (rendered Data)\<rparr>
       \<and> document_text (snd (PrintData Data (h, OutputDocument)))
           = document_text (h, OutputDocument) @ rendered Data"
proof -
  from assms(2,3) have "has_room (length (rendered Data)) (h, OutputDocument)"
    by (simp add: has_room_def)
  from PrintData_emits [OF assms(1) this] show ?thesis
    by (simp only: emits_def snd_conv simp_thms)
qed

lemma long_name_rendered:
  "rendered (DRIVER_XML_TAG XmlTag (Some (replicate 130 (CHR ''a''))) (LIST_ANCHOR [] 0)
               (LIST_ANCHOR [] 0))
     = ''<'' @ replicate 126 (CHR ''a'') @ ''>''"
  by (simp add: opener_piece_def closer_piece_def percent_a_def NUL_def)

lemma long_name_printed:
  "fst (PrintData (DRIVER_XML_TAG XmlTag (Some (replicate 130 (CHR ''a''))) (LIST_ANCHOR [] 0)
                     (LIST_ANCHOR [] 0)) fresh_writer) = EFI_SUCCESS
   \<and> document_text (snd (PrintData (DRIVER_XML_TAG XmlTag (Some (replicate 130 (CHR ''a'')))
                                     (LIST_ANCHOR [] 0) (LIST_ANCHOR [] 0)) fresh_writer))
     = ''<'' @ replicate 126 (CHR ''a'') @ ''>''"
proof -
  have "anchors_walkable (DRIVER_XML_TAG XmlTag (Some (replicate 130 (CHR ''a''))) (LIST_ANCHOR [] 0)
                            (LIST_ANCHOR [] 0))"
    by simp
  moreover have "length (rendered (DRIVER_XML_TAG XmlTag (Some (replicate 130 (CHR ''a'')))
                                     (LIST_ANCHOR [] 0) (LIST_ANCHOR [] 0))) \<le> 512"
    by (simp only: long_name_rendered) simp
  ultimately have
    "document_text (snd (PrintData (DRIVER_XML_TAG XmlTag (Some (replicate 130 (CHR ''a'')))
                                      (LIST_ANCHOR [] 0) (LIST_ANCHOR [] 0)) fresh_writer))
       = rendered (DRIVER_XML_TAG XmlTag (Some (replicate 130 (CHR ''a''))) (LIST_ANCHOR [] 0)
                     (LIST_ANCHOR [] 0))"
    by (rule PrintData_fresh_writer)
  then show ?thesis
    by (simp only: long_name_rendered PrintData_tag fst_conv simp_thms)
qed

lemma concat_map_pieces:
  assumes "\<And>x. x \<in> set entries \<Longrightarrow> f x = concat (map piece_text (pieces x))"
  shows "concat (map f entries) = concat (map piece_text (concat (map pieces entries)))"
  using assms by (induction entries) simp_all

lemma rendered_pieces: "rendered Data = concat (map piece_text (pieces Data))"
proof (induction Data rule: rendered.induct)
  case (1 DataType Name attributes an children cn)
  have a: "concat (map rendered attributes)
             = concat (map piece_text (concat (map pieces attributes)))"
    if "DataType = XmlTag" "0 < an"
    using "1.IH"(1) [OF that] by (rule concat_map_pieces)
  have c: "concat (map rendered children)
             = concat (map piece_text (concat (map pieces children)))"
    if "DataType = XmlTag" "0 < cn"
    using "1.IH"(2) [OF that] by (rule concat_map_pieces)
  have e: "concat (map rendered (filter (\<lambda>a. XmlDataType a = XmlAttribute) attributes))
             = concat (map piece_text
                 (concat (map pieces (filter (\<lambda>a. XmlDataType a = XmlAttribute) attributes))))"
    if "DataType \<noteq> XmlTag" "DataType = XmlEmptyTag" "0 < an"
    using "1.IH"(3) [OF that] by (rule concat_map_pieces)
  from a c e show ?case
    by simp
qed simp_all

lemma list_all_concat_map:
  assumes "\<And>x. x \<in> set entries \<Longrightarrow> list_all P (f x)"
  shows "list_all P (concat (map f entries))"
  using assms by (induction entries) simp_all

lemma pieces_fit_buffer: "list_all fits_buffer (pieces Data)"
proof (induction Data rule: pieces.induct)
  case (1 DataType Name attributes an children cn)
  have a: "list_all fits_buffer (concat (map pieces attributes))" if "DataType = XmlTag" "0 < an"
    using "1.IH"(1) [OF that] by (rule list_all_concat_map)
  have c: "list_all fits_buffer (concat (map pieces children))" if "DataType = XmlTag" "0 < cn"
    using "1.IH"(2) [OF that] by (rule list_all_concat_map)
  have e: "list_all fits_buffer
             (concat (map pieces (filter (\<lambda>a. XmlDataType a = XmlAttribute) attributes)))"
    if "DataType \<noteq> XmlTag" "DataType = XmlEmptyTag" "0 < an"
    using "1.IH"(3) [OF that] by (rule list_all_concat_map)
  have gt: "NUL \<notin> set ''>''" by (simp add: NUL_def)
  from a c e gt pieces_have_no_NUL(1,2,3) [of Name] pieces_are_short(1,2,3) [of Name] show ?case
    by (simp add: MAX_TEMP_BUFFER_SIZE_def)
next
  case (2 AttributeName AttributeData)
  from pieces_have_no_NUL(4) [of AttributeName AttributeData]
    pieces_are_short(4) [of AttributeName AttributeData]
  show ?case by (simp add: MAX_TEMP_BUFFER_SIZE_def)
next
  case (3 DataSize CharData)
  show ?case by simp
next
  case (4 PiTargetName PiTargetData)
  from pieces_have_no_NUL(5) [of PiTargetName PiTargetData]
    pieces_are_short(5) [of PiTargetName PiTargetData]
  show ?case by (simp add: MAX_TEMP_BUFFER_SIZE_def)
qed

lemma PrintWalkBranch_loop_pieces:
  assumes "\<And>x v. x \<in> set entries \<Longrightarrow> snd (PrintData x v) = fold copy_piece (pieces x) v"
  shows "PrintWalkBranch_loop entries w = fold copy_piece (concat (map pieces entries)) w"
  using assms
proof (induction entries arbitrary: w)
  case Nil
  show ?case by simp
next
  case (Cons x entries)
  have "PrintWalkBranch_loop entries (snd (PrintData x w))
          = fold copy_piece (concat (map pieces entries)) (snd (PrintData x w))"
    using Cons.prems by (intro Cons.IH) simp_all
  moreover have "snd (PrintData x w) = fold copy_piece (pieces x) w"
    by (rule Cons.prems) simp
  ultimately show ?case
    by (simp del: PrintData.simps)
qed

lemma PrintEmptyTag_loop_pieces:
  assumes "\<And>x v. x \<in> set entries \<Longrightarrow> XmlDataType x = XmlAttribute
             \<Longrightarrow> snd (PrintData x v) = fold copy_piece (pieces x) v"
  shows "PrintEmptyTag_loop entries w
           = fold copy_piece
               (concat (map pieces (filter (\<lambda>a. XmlDataType a = XmlAttribute) entries))) w"
  using assms
proof (induction entries arbitrary: w)
  case Nil
  show ?case by simp
next
  case (Cons x entries)
  have rest: "PrintEmptyTag_loop entries v
                = fold copy_piece
                    (concat (map pieces (filter (\<lambda>a. XmlDataType a = XmlAttribute) entries))) v"
    for v
    using Cons.prems by (intro Cons.IH) simp_all
  show ?case
  proof (cases "XmlDataType x = XmlAttribute")
    case True
    then have "snd (PrintData x w) = fold copy_piece (pieces x) w"
      by (intro Cons.prems) simp_all
    with True rest [of "snd (PrintData x w)"] show ?thesis
      by (simp del: PrintData.simps)
  next
    case False
    with rest [of w] show ?thesis by simp
  qed
qed

lemma PrintData_pieces:
  "anchors_walkable Data \<Longrightarrow> snd (PrintData Data w) = fold copy_piece (pieces Data) w"
proof (induction Data arbitrary: w rule: pieces.induct)
  case (1 DataType Name attributes an children cn)
  from "1.prems" have type: "DataType = XmlTag \<or> DataType = XmlEmptyTag"
    and wa: "\<And>x. x \<in> set attributes \<Longrightarrow> anchors_walkable x"
    and wc: "\<And>x. x \<in> set children \<Longrightarrow> anchors_walkable x"
    by (simp_all add: list_all_iff)
  show ?case
  proof (cases "DataType = XmlTag")
    case True
    have a: "PrintWalkBranch_loop attributes v = fold copy_piece (concat (map pieces attributes)) v"
      if "0 < an" for v
      using "1.IH"(1) [OF True that _ wa] by (intro PrintWalkBranch_loop_pieces) blast
    have c: "PrintWalkBranch_loop children v = fold copy_piece (concat (map pieces children)) v"
      if "0 < cn" for v
      using "1.IH"(2) [OF True that _ wc] by (intro PrintWalkBranch_loop_pieces) blast
    from True a c show ?thesis
      by (simp add: PrintData_tag del: PrintData.simps)
  next
    case False
    with type have empty: "DataType = XmlEmptyTag" by simp
    have a: "PrintEmptyTag_loop attributes v
               = fold copy_piece
                   (concat (map pieces (filter (\<lambda>a. XmlDataType a = XmlAttribute) attributes))) v"
      if "0 < an" for v
    proof (rule PrintEmptyTag_loop_pieces)
      fix x v
      assume x: "x \<in> set attributes" and t: "XmlDataType x = XmlAttribute"
      then have "x \<in> set (filter (\<lambda>a. XmlDataType a = XmlAttribute) attributes)" by simp
      from "1.IH"(3) [OF False empty that this wa [OF x]]
      show "snd (PrintData x v) = fold copy_piece (pieces x) v" .
    qed
    from False empty a show ?thesis
      by (simp add: PrintData_empty_tag del: PrintData.simps)
  qed
next
  case (2 AttributeName AttributeData)
  show ?case by (simp add: PrintData_attribute del: PrintData.simps)
next
  case (3 DataSize CharData)
  show ?case by (simp add: PrintData_char_data del: PrintData.simps)
next
  case (4 PiTargetName PiTargetData)
  show ?case by (simp add: PrintData_pi del: PrintData.simps)
qed

lemma copy_piece_last_written:
  assumes "fits_buffer p"
  shows "last_written (length (piece_text p)) (copy_piece p w) = piece_text p"
proof (cases p)
  case (Formatted s)
  with assms have "NUL \<notin> set s" and "length s \<le> 127"
    by (simp_all add: MAX_TEMP_BUFFER_SIZE_def)
  from formatted_piece_last_written [OF this] show ?thesis
    by (simp add: Formatted)
next
  case (CharacterData DataSize CharData)
  from PrintCharData_last_written [of DataSize CharData w] show ?thesis
    by (simp add: CharacterData PrintData_char_data heap_bytes_def del: PrintData.simps)
qed

lemma small_document_text:
  "document_text (\<lparr>Memory = load 8192 ''<r>'' zeroed, Pool = []\<rparr>,
                  \<lparr>XmlDocument = 8192, DocumentSize = 512, OperationPtr = 8195\<rparr>) = ''<r>''"
  by (simp add: document_text_def read_bytes_def load_def upt_conv_Cons)

text \<open>
  C10.  The printers of opening tags, attributes, processing instructions and closing
  tags format into a buffer of \<open>MAX_TEMP_BUFFER_SIZE\<close> = 128 bytes, which holds at most
  127 characters and a NUL, and \<open>StringToDocument\<close> copies a string up to its NUL but
  no more than 128 bytes; \<open>PrintCharData\<close> copies \<open>DataSize\<close> bytes.  The pieces
  (\<open>opener_piece\<close>, \<open>attribute_piece\<close>, \<open>pi_piece\<close>, \<open>closer_piece\<close>,
  \<open>empty_closer_piece\<close>) are the formatted texts cut to 127 characters, the two closing
  pieces to what the opening tag has left of the 127, since the second \<open>AsciiSPrint\<close>
  is given the size \<open>128 - BufferOffset\<close>; \<open>rendered\<close> puts them together for a tree.

  For every tree the formatted pieces among its writes have fewer than 128 characters
  and no NUL.  For every tree with \<open>anchors_walkable\<close> and every state of the output
  document, reallocation included, what \<open>PrintData\<close> does to the document is to copy
  the pieces of the tree one after the other; a piece that fits the buffer, and any run
  of character data, is then found whole before the cursor; and \<open>rendered\<close> is the
  pieces' texts in a row.

  For every tree with \<open>anchors_walkable\<close>: printed into a document whose cursor lies
  inside the buffer and that has room for it, \<open>PrintData\<close> answers \<open>EFI_SUCCESS\<close>,
  moves the cursor on by the length of \<open>rendered\<close> and appends exactly \<open>rendered\<close>;
  printed into the empty document of the test application, where the first write
  allocates the buffer of 512 bytes, a tree of at most 512 bytes gives exactly
  \<open>rendered\<close>, and character data below \<open>2 ^ 63\<close> bytes gives all its bytes.  For
  every state of the output document, the bytes before the cursor are: after
  \<open>StringToDocument\<close> the first \<open>min (AsciiStrLen String) 128\<close> bytes of the string,
  after an attribute or a processing instruction its piece, after a tag or an empty tag
  its closing piece, after character data all \<open>DataSize\<close> bytes.  A tag named with 130
  letters is printed as \<open><\<close>, 126 letters and \<open>>\<close>, with \<open>EFI_SUCCESS\<close>: the name
  is cut and the closing tag is missing.
\<close>

theorem formatted_pieces_are_cut_at_the_temporary_buffer:
  "list_all fits_buffer (pieces Data)
   \<and> (anchors_walkable Data \<longrightarrow> snd (PrintData Data w) = fold copy_piece (pieces Data) w)
   \<and> (fits_buffer p \<longrightarrow> last_written (length (piece_text p)) (copy_piece p w) = piece_text p)
   \<and> rendered Data = concat (map piece_text (pieces Data))
   \<and> (anchors_walkable Data \<and> document_ok OutputDocument
      \<and> length (rendered Data) \<le> free_size OutputDocument \<longrightarrow>
      fst (PrintData Data (h, OutputDocument)) = EFI_SUCCESS
      \<and> snd (snd (PrintData Data (h, OutputDocument)))
          = OutputDocument\<lparr>OperationPtr := OperationPtr OutputDocument + length (rendered Data)\<rparr>
      \<and> document_text (snd (PrintData Data (h, OutputDocument)))
          = document_text (h, OutputDocument) @ rendered Data)
   \<and> (anchors_walkable Data \<and> length (rendered Data) \<le> 512 \<longrightarrow>
      document_text (snd (PrintData Data fresh_writer)) = rendered Data)
   \<and> (DataSize < 2 ^ 63 \<longrightarrow>
      document_text (snd (PrintData (DRIVER_XML_CHAR_DATA DataSize CharData) fresh_writer))
        = heap_bytes CharData 0 DataSize)
   \<and> last_written (min (AsciiStrLen String) MAX_TEMP_BUFFER_SIZE) (snd (StringToDocument String w))
       = take (min (AsciiStrLen String) MAX_TEMP_BUFFER_SIZE) String
   \<and> last_written (length (attribute_piece AttributeName AttributeData))
        (snd (PrintData (DRIVER_XML_ATTRIBUTE AttributeName AttributeData) w))
       = attribute_piece AttributeName AttributeData
   \<and> last_written (length (pi_piece PiTargetName PiTargetData))
        (snd (PrintData (DRIVER_XML_PROCESSING_INSTRUCTION PiTargetName PiTargetData) w))
       = pi_piece PiTargetName PiTargetData
   \<and> (anchors_walkable (DRIVER_XML_TAG XmlTag Name AttributeList ChildList) \<longrightarrow>
      last_written (length (closer_piece Name))
        (snd (PrintData (DRIVER_XML_TAG XmlTag Name AttributeList ChildList) w))
       = closer_piece Name)
   \<and> (anchors_walkable (DRIVER_XML_TAG XmlEmptyTag Name AttributeList ChildList) \<longrightarrow>
      last_written (length (empty_closer_piece Name))
        (snd (PrintData (DRIVER_XML_TAG XmlEmptyTag Name AttributeList ChildList) w))
       = empty_closer_piece Name)
   \<and> last_written DataSize (snd (PrintData (DRIVER_XML_CHAR_DATA DataSize CharData) w))
       = heap_bytes CharData 0 DataSize
   \<and> fst (PrintData (DRIVER_XML_TAG XmlTag (Some (replicate 130 (CHR ''a''))) (LIST_ANCHOR [] 0)
                       (LIST_ANCHOR [] 0)) fresh_writer) = EFI_SUCCESS
   \<and> document_text (snd (PrintData (DRIVER_XML_TAG XmlTag (Some (replicate 130 (CHR ''a'')))
                                      (LIST_ANCHOR [] 0) (LIST_ANCHOR [] 0)) fresh_writer))
       = ''<'' @ replicate 126 (CHR ''a'') @ ''>''"
  using pieces_fit_buffer [of Data] PrintData_pieces [of Data w] copy_piece_last_written [of p w]
    rendered_pieces [of Data]
    PrintData_with_room [of Data OutputDocument h] PrintData_fresh_writer [of Data]
    PrintCharData_text [of DataSize CharData]
    StringToDocument_last_written [of String w]
    PrintAttribute_last_written [of AttributeName AttributeData w]
    PrintPi_last_written [of PiTargetName PiTargetData w]
    PrintTag_last_written [of Name AttributeList ChildList w]
    PrintEmptyTag_last_written [of Name AttributeList ChildList w]
    PrintCharData_last_written [of DataSize CharData w]
    long_name_printed
  by blast

text \<open>
  C10, an instance: the tag \<open>a\<close> with the attribute \<open>x\<close>, an empty tag \<open>e\<close> with an
  attribute without a value, the character data \<open>hi\<close> and a processing instruction,
  printed behind the three bytes \<open><r>\<close> of a document of 512 bytes, and printed into the
  empty document of the test application; its nine writes; and the closing pieces
  \<open></a>\<close> and \<open>/>\<close> as they are found before the cursor after a write into the full
  document, which has to grow for them.
\<close>

theorem formatted_pieces_are_cut_at_the_temporary_buffer_witness:
  "anchors_walkable
     (DRIVER_XML_TAG XmlTag (Some ''a'') (LIST_ANCHOR [DRIVER_XML_ATTRIBUTE (Some ''x'') (Some ''1'')] 1)
        (LIST_ANCHOR
           [DRIVER_XML_TAG XmlEmptyTag (Some ''e'')
              (LIST_ANCHOR [DRIVER_XML_ATTRIBUTE (Some ''y'') None] 1) (LIST_ANCHOR [] 0),
            DRIVER_XML_CHAR_DATA 2 ''hi'',
            DRIVER_XML_PROCESSING_INSTRUCTION (Some ''t'') (Some ''d'')] 3))
   \<and> pieces
       (DRIVER_XML_TAG XmlTag (Some ''a'') (LIST_ANCHOR [DRIVER_XML_ATTRIBUTE (Some ''x'') (Some ''1'')] 1)
          (LIST_ANCHOR
             [DRIVER_XML_TAG XmlEmptyTag (Some ''e'')
                (LIST_ANCHOR [DRIVER_XML_ATTRIBUTE (Some ''y'') None] 1) (LIST_ANCHOR [] 0),
              DRIVER_XML_CHAR_DATA 2 ''hi'',
              DRIVER_XML_PROCESSING_INSTRUCTION (Some ''t'') (Some ''d'')] 3))
     = [Formatted ''<a'', Formatted '' x=\"1\"'', Formatted ''>'', Formatted ''<e'',
        Formatted '' y=\"\"'', Formatted ''/>'', CharacterData 2 ''hi'', Formatted ''<?t d?>'',
        Formatted ''</a>'']
   \<and> fits_buffer (Formatted ''</a>'')
   \<and> last_written (length ''</a>'') (copy_piece (Formatted ''</a>'') full_writer) = ''</a>''
   \<and> document_ok \<lparr>XmlDocument = 8192, DocumentSize = 512, OperationPtr = 8195\<rparr>
   \<and> rendered
       (DRIVER_XML_TAG XmlTag (Some ''a'') (LIST_ANCHOR [DRIVER_XML_ATTRIBUTE (Some ''x'') (Some ''1'')] 1)
          (LIST_ANCHOR
             [DRIVER_XML_TAG XmlEmptyTag (Some ''e'')
                (LIST_ANCHOR [DRIVER_XML_ATTRIBUTE (Some ''y'') None] 1) (LIST_ANCHOR [] 0),
              DRIVER_XML_CHAR_DATA 2 ''hi'',
              DRIVER_XML_PROCESSING_INSTRUCTION (Some ''t'') (Some ''d'')] 3))
     = ''<a x=\"1\"><e y=\"\"/>hi<?t d?></a>''
   \<and> free_size \<lparr>XmlDocument = 8192, DocumentSize = 512, OperationPtr = 8195\<rparr> = 509
   \<and> length (rendered
       (DRIVER_XML_TAG XmlTag (Some ''a'') (LIST_ANCHOR [DRIVER_XML_ATTRIBUTE (Some ''x'') (Some ''1'')] 1)
          (LIST_ANCHOR
             [DRIVER_XML_TAG XmlEmptyTag (Some ''e'')
                (LIST_ANCHOR [DRIVER_XML_ATTRIBUTE (Some ''y'') None] 1) (LIST_ANCHOR [] 0),
              DRIVER_XML_CHAR_DATA 2 ''hi'',
              DRIVER_XML_PROCESSING_INSTRUCTION (Some ''t'') (Some ''d'')] 3)))
     \<le> free_size \<lparr>XmlDocument = 8192, DocumentSize = 512, OperationPtr = 8195\<rparr>
   \<and> length (rendered
       (DRIVER_XML_TAG XmlTag (Some ''a'') (LIST_ANCHOR [DRIVER_XML_ATTRIBUTE (Some ''x'') (Some ''1'')] 1)
          (LIST_ANCHOR
             [DRIVER_XML_TAG XmlEmptyTag (Some ''e'')
                (LIST_ANCHOR [DRIVER_XML_ATTRIBUTE (Some ''y'') None] 1) (LIST_ANCHOR [] 0),
              DRIVER_XML_CHAR_DATA 2 ''hi'',
              DRIVER_XML_PROCESSING_INSTRUCTION (Some ''t'') (Some ''d'')] 3)))
     \<le> 512
   \<and> anchors_walkable
       (DRIVER_XML_TAG XmlTag (Some ''e'')
          (LIST_ANCHOR [DRIVER_XML_ATTRIBUTE (Some ''y'') None] 1) (LIST_ANCHOR [] 0))
   \<and> last_written (length ''</e>'')
       (snd (PrintData
          (DRIVER_XML_TAG XmlTag (Some ''e'')
             (LIST_ANCHOR [DRIVER_XML_ATTRIBUTE (Some ''y'') None] 1) (LIST_ANCHOR [] 0))
          full_writer))
     = ''</e>''
   \<and> (2 :: nat) < 2 ^ 63
   \<and> anchors_walkable
       (DRIVER_XML_TAG XmlEmptyTag (Some ''e'')
          (LIST_ANCHOR [DRIVER_XML_ATTRIBUTE (Some ''y'') None] 1) (LIST_ANCHOR [] 0))
   \<and> document_text
       (snd (PrintData
          (DRIVER_XML_TAG XmlTag (Some ''a'')
             (LIST_ANCHOR [DRIVER_XML_ATTRIBUTE (Some ''x'') (Some ''1'')] 1)
             (LIST_ANCHOR
                [DRIVER_XML_TAG XmlEmptyTag (Some ''e'')
                   (LIST_ANCHOR [DRIVER_XML_ATTRIBUTE (Some ''y'') None] 1) (LIST_ANCHOR [] 0),
                 DRIVER_XML_CHAR_DATA 2 ''hi'',
                 DRIVER_XML_PROCESSING_INSTRUCTION (Some ''t'') (Some ''d'')] 3))
          (\<lparr>Memory = load 8192 ''<r>'' zeroed, Pool = []\<rparr>,
           \<lparr>XmlDocument = 8192, DocumentSize = 512, OperationPtr = 8195\<rparr>)))
     = ''<r><a x=\"1\"><e y=\"\"/>hi<?t d?></a>''
   \<and> document_text
       (snd (PrintData
          (DRIVER_XML_TAG XmlTag (Some ''a'')
             (LIST_ANCHOR [DRIVER_XML_ATTRIBUTE (Some ''x'') (Some ''1'')] 1)
             (LIST_ANCHOR
                [DRIVER_XML_TAG XmlEmptyTag (Some ''e'')
                   (LIST_ANCHOR [DRIVER_XML_ATTRIBUTE (Some ''y'') None] 1) (LIST_ANCHOR [] 0),
                 DRIVER_XML_CHAR_DATA 2 ''hi'',
                 DRIVER_XML_PROCESSING_INSTRUCTION (Some ''t'') (Some ''d'')] 3))
          fresh_writer))
     = ''<a x=\"1\"><e y=\"\"/>hi<?t d?></a>''
   \<and> document_text (snd (PrintData (DRIVER_XML_CHAR_DATA 2 ''hi'') fresh_writer)) = ''hi''
   \<and> last_written (length ''/>'')
       (snd (PrintData
          (DRIVER_XML_TAG XmlEmptyTag (Some ''e'')
             (LIST_ANCHOR [DRIVER_XML_ATTRIBUTE (Some ''y'') None] 1) (LIST_ANCHOR [] 0))
          full_writer))
     = ''/>''"
  using formatted_pieces_are_cut_at_the_temporary_buffer
    [where Data = "DRIVER_XML_TAG XmlTag (Some ''a'')
             (LIST_ANCHOR [DRIVER_XML_ATTRIBUTE (Some ''x'') (Some ''1'')] 1)
             (LIST_ANCHOR
                [DRIVER_XML_TAG XmlEmptyTag (Some ''e'')
                   (LIST_ANCHOR [DRIVER_XML_ATTRIBUTE (Some ''y'') None] 1) (LIST_ANCHOR [] 0),
                 DRIVER_XML_CHAR_DATA 2 ''hi'',
                 DRIVER_XML_PROCESSING_INSTRUCTION (Some ''t'') (Some ''d'')] 3)"
       and OutputDocument = "\<lparr>XmlDocument = 8192, DocumentSize = 512, OperationPtr = 8195\<rparr>"
       and h = "\<lparr>Memory = load 8192 ''<r>'' zeroed, Pool = []\<rparr>"
       and p = "Formatted ''</a>''"
       and DataSize = 2 and CharData = "''hi''" and String = "''<name''" and w = full_writer
       and AttributeName = "Some ''x''" and AttributeData = "Some ''1''"
       and PiTargetName = "Some ''t''" and PiTargetData = "Some ''d''"
       and Name = "Some ''e''"
       and AttributeList = "LIST_ANCHOR [DRIVER_XML_ATTRIBUTE (Some ''y'') None] 1"
       and ChildList = "LIST_ANCHOR [] 0"]
    small_document_text
  by (simp add: MAX_TEMP_BUFFER_SIZE_def document_ok_def free_size_def UINTN_sub_def UINTN_MAX_def opener_piece_def
      closer_piece_def empty_closer_piece_def attribute_piece_def pi_piece_def percent_a_def NUL_def
      heap_bytes_def heap_string_def upt_conv_Cons
      del: PrintData.simps)

end
